theory Spec2Isabelle
  imports Complex_Main "HOL-Library.Sublist" "HOL-Library.Char_ord" "HOL-Library.List_Lexorder"
    "HOL-Library.Multiset"
begin

section \<open>JavaScript numbers\<close>

text \<open>
  A JavaScript number is an IEEE 754 double: a finite value, one of the two infinities, or
  NaN. A finite double is modelled by the real number it denotes, so the two zeros are one
  value.
\<close>

datatype jsnum = Fin real | PInf | NInf | NaN

subsection \<open>Rounding to a double\<close>

text \<open>
  \<open>roundDouble x\<close> is the double that an operation returns when its exact result is \<open>x\<close>:
  the nearest number with a significand of 53 bits, a tie going to the even significand. The
  unit in the last place of \<open>x\<close> is \<open>2\<^sup>e\<close> with \<open>e = \<lfloor>log\<^sub>2 \<bar>x\<bar>\<rfloor> - 52\<close>, and never less than
  \<open>2\<^sup>-\<^sup>1\<^sup>0\<^sup>7\<^sup>4\<close> (gradual underflow: a result below half of that is zero). A rounded
  result of magnitude \<open>2\<^sup>1\<^sup>0\<^sup>2\<^sup>4\<close> or more is an infinity.
\<close>

definition pow2 :: "int \<Rightarrow> real" where
  "pow2 e = (if 0 \<le> e then 2 ^ nat e else 1 / 2 ^ nat (- e))"

definition ulpExponent :: "real \<Rightarrow> int" where
  "ulpExponent x = max (\<lfloor>log 2 \<bar>x\<bar>\<rfloor> - 52) (- 1074)"

definition roundHalfEven :: "real \<Rightarrow> int" where
  "roundHalfEven x =
     (let f = \<lfloor>x\<rfloor>; r = x - of_int f
      in if r < 1 / 2 then f else if 1 / 2 < r then f + 1 else if even f then f else f + 1)"

definition roundDouble :: "real \<Rightarrow> jsnum" where
  "roundDouble x =
     (if x = 0 then Fin 0
      else
        (let e = ulpExponent x;
             y = of_int (roundHalfEven (x / pow2 e)) * pow2 e
         in if pow2 1024 \<le> \<bar>y\<bar> then (if 0 < x then PInf else NInf) else Fin y))"

subsection \<open>The operations on doubles\<close>

text \<open>
  \<^verbatim>\<open>-x\<close>, \<^verbatim>\<open>x + y\<close>, \<^verbatim>\<open>x - y\<close>, \<^verbatim>\<open>x * y\<close>, \<^verbatim>\<open>x / y\<close> and \<^verbatim>\<open>Math.sqrt(x)\<close>: the exact
  result, rounded; NaN propagates; the sum of the two opposite infinities, the product of
  zero and an infinity, the quotient of two zeros or two infinities and the square root of a
  negative number are NaN. A zero divisor is the positive zero (the divisors of this program
  are lengths, square roots, absolute values and the constants 2 and 4), so a non-zero number
  divided by zero is the infinity with the sign of the dividend.
\<close>

fun fneg :: "jsnum \<Rightarrow> jsnum" where
  "fneg (Fin x) = Fin (- x)"
| "fneg PInf = NInf"
| "fneg NInf = PInf"
| "fneg NaN = NaN"

fun fadd :: "jsnum \<Rightarrow> jsnum \<Rightarrow> jsnum" where
  "fadd (Fin x) (Fin y) = roundDouble (x + y)"
| "fadd NaN y = NaN"
| "fadd x NaN = NaN"
| "fadd PInf NInf = NaN"
| "fadd NInf PInf = NaN"
| "fadd PInf y = PInf"
| "fadd NInf y = NInf"
| "fadd (Fin x) PInf = PInf"
| "fadd (Fin x) NInf = NInf"

definition fsub :: "jsnum \<Rightarrow> jsnum \<Rightarrow> jsnum" where
  "fsub x y = fadd x (fneg y)"

fun fmul :: "jsnum \<Rightarrow> jsnum \<Rightarrow> jsnum" where
  "fmul (Fin x) (Fin y) = roundDouble (x * y)"
| "fmul NaN y = NaN"
| "fmul x NaN = NaN"
| "fmul (Fin x) PInf = (if x = 0 then NaN else if 0 < x then PInf else NInf)"
| "fmul (Fin x) NInf = (if x = 0 then NaN else if 0 < x then NInf else PInf)"
| "fmul PInf (Fin y) = (if y = 0 then NaN else if 0 < y then PInf else NInf)"
| "fmul NInf (Fin y) = (if y = 0 then NaN else if 0 < y then NInf else PInf)"
| "fmul PInf PInf = PInf"
| "fmul PInf NInf = NInf"
| "fmul NInf PInf = NInf"
| "fmul NInf NInf = PInf"

fun fdiv :: "jsnum \<Rightarrow> jsnum \<Rightarrow> jsnum" where
  "fdiv (Fin x) (Fin y) =
     (if y \<noteq> 0 then roundDouble (x / y) else if x = 0 then NaN else if 0 < x then PInf else NInf)"
| "fdiv NaN y = NaN"
| "fdiv x NaN = NaN"
| "fdiv (Fin x) PInf = Fin 0"
| "fdiv (Fin x) NInf = Fin 0"
| "fdiv PInf (Fin y) = (if 0 \<le> y then PInf else NInf)"
| "fdiv NInf (Fin y) = (if 0 \<le> y then NInf else PInf)"
| "fdiv PInf PInf = NaN"
| "fdiv PInf NInf = NaN"
| "fdiv NInf PInf = NaN"
| "fdiv NInf NInf = NaN"

fun fsqrt :: "jsnum \<Rightarrow> jsnum" where
  "fsqrt (Fin x) = (if x < 0 then NaN else roundDouble (sqrt x))"
| "fsqrt PInf = PInf"
| "fsqrt NInf = NaN"
| "fsqrt NaN = NaN"

fun jabs :: "jsnum \<Rightarrow> jsnum" where
  "jabs (Fin x) = Fin \<bar>x\<bar>"
| "jabs PInf = PInf"
| "jabs NInf = PInf"
| "jabs NaN = NaN"

text \<open>\<^verbatim>\<open>x < y\<close> on two numbers: every comparison with NaN is false.\<close>

fun jless :: "jsnum \<Rightarrow> jsnum \<Rightarrow> bool" where
  "jless (Fin x) (Fin y) = (x < y)"
| "jless NaN y = False"
| "jless x NaN = False"
| "jless x NInf = False"
| "jless PInf y = False"
| "jless NInf y = True"
| "jless (Fin x) PInf = True"

text \<open>\<open>jgt x c\<close> is \<^verbatim>\<open>x > c\<close> and \<open>jlt x c\<close> is \<^verbatim>\<open>x < c\<close>, for a finite \<open>c\<close>.\<close>

fun jgt :: "jsnum \<Rightarrow> real \<Rightarrow> bool" where
  "jgt (Fin x) c = (c < x)"
| "jgt PInf c = True"
| "jgt NInf c = False"
| "jgt NaN c = False"

fun jlt :: "jsnum \<Rightarrow> real \<Rightarrow> bool" where
  "jlt (Fin x) c = (x < c)"
| "jlt PInf c = False"
| "jlt NInf c = True"
| "jlt NaN c = False"

text \<open>\<^verbatim>\<open>Math.min(x, c)\<close> for a finite \<open>c\<close>.\<close>

fun jmin :: "jsnum \<Rightarrow> real \<Rightarrow> jsnum" where
  "jmin (Fin x) c = Fin (min x c)"
| "jmin PInf c = Fin c"
| "jmin NInf c = NInf"
| "jmin NaN c = NaN"

subsection \<open>Exact arithmetic\<close>

text \<open>
  The weighted moving average of the forecaster and the recurrence rule of the anomaly
  detector are written with the arithmetic of the reals on finite numbers, which leaves out
  the rounding of each of their operations; a division whose divisor may be zero returns the
  special values of IEEE 754 there as well: a non-zero number divided by zero is an infinity
  with the sign of the dividend, and zero divided by zero is NaN (a divisor is a square root
  or a sum started at \<open>+ 0\<close>, never the negative zero).
\<close>

definition jdiv :: "real \<Rightarrow> real \<Rightarrow> jsnum" where
  "jdiv x y = (if y \<noteq> 0 then Fin (x / y) else if x = 0 then NaN else if 0 < x then PInf else NInf)"

text \<open>\<^verbatim>\<open>c - x\<close> and \<^verbatim>\<open>x * c\<close>, for a finite \<open>c\<close>.\<close>

fun jminus :: "real \<Rightarrow> jsnum \<Rightarrow> jsnum" where
  "jminus c (Fin x) = Fin (c - x)"
| "jminus c PInf = NInf"
| "jminus c NInf = PInf"
| "jminus c NaN = NaN"

fun jtimes :: "jsnum \<Rightarrow> real \<Rightarrow> jsnum" where
  "jtimes (Fin x) c = Fin (x * c)"
| "jtimes PInf c = (if 0 < c then PInf else if c < 0 then NInf else NaN)"
| "jtimes NInf c = (if 0 < c then NInf else if c < 0 then PInf else NaN)"
| "jtimes NaN c = NaN"

section \<open>Ledger: transactions and account balances\<close>

text \<open>
  The embedding follows \<^verbatim>\<open>TransactionsService\<close> and \<^verbatim>\<open>AccountsService\<close>. The two
  repositories are stores that return what was saved: the rounding of a balance to the two
  decimals of its \<^verbatim>\<open>decimal(10,2)\<close> column is the work of the database, outside the
  services, and is not modelled. The amount of a transaction is a finite number (the request
  is validated as a number); a balance is whatever number the additions have produced.
  Identifiers are the generated keys of the tables, modelled as naturals; an optional
  identifier is truthy when it is present and not 0.
\<close>

datatype TransactionType = EXPENSE | INCOME | TRANSFER

text \<open>
  A JavaScript \<^verbatim>\<open>Date\<close> read in one fixed time zone without daylight saving: the
  calendar fields that \<^verbatim>\<open>getFullYear\<close>, \<^verbatim>\<open>getMonth\<close> (0 to 11) and
  \<^verbatim>\<open>getDate\<close> return, and the milliseconds since midnight.
\<close>

record JsDate =
  fullYear :: nat
  monthIdx :: nat
  dayOfMonth :: nat
  msOfDay :: nat

datatype error = NotFoundException | BadRequestException | InternalServerErrorException

record Account =
  balance :: jsnum
  acc_userId :: nat

text \<open>
  A row of the transactions table; \<open>category\<close> is the name of the joined category, when
  the relation is loaded and the transaction has one.
\<close>

record Transaction =
  tid :: nat
  amount :: real
  ttype :: TransactionType
  description :: "string option"
  date :: JsDate
  isPaid :: bool
  accountId :: nat
  destinationAccountId :: "nat option"
  categoryId :: "nat option"
  category :: "string option"
  userId :: nat

record CreateTransactionDto =
  c_amount :: real
  c_type :: TransactionType
  c_description :: "string option"
  c_date :: JsDate
  c_isPaid :: "bool option"
  c_accountId :: nat
  c_destinationAccountId :: "nat option"
  c_categoryId :: "nat option"

text \<open>
  \<^verbatim>\<open>UpdateTransactionDto\<close> is the partial form of the create request: a field is \<open>None\<close>
  when the request does not carry it.
\<close>

record UpdateTransactionDto =
  u_amount :: "real option"
  u_type :: "TransactionType option"
  u_description :: "string option"
  u_date :: "JsDate option"
  u_isPaid :: "bool option"
  u_accountId :: "nat option"
  u_destinationAccountId :: "nat option"
  u_categoryId :: "nat option"

text \<open>The two tables, keyed by their generated primary keys.\<close>

record ledger =
  accounts :: "nat \<rightharpoonup> Account"
  transactions :: "nat \<rightharpoonup> Transaction"
  nextId :: nat

definition truthy :: "nat option \<Rightarrow> bool" where
  "truthy v = (case v of None \<Rightarrow> False | Some n \<Rightarrow> n \<noteq> 0)"

subsection \<open>AccountsService\<close>

definition acc_findOne :: "nat \<Rightarrow> nat \<Rightarrow> ledger \<Rightarrow> error + Account" where
  "acc_findOne i uid s =
     (case accounts s i of
        None \<Rightarrow> Inl NotFoundException
      | Some a \<Rightarrow> if acc_userId a = uid then Inr a else Inl NotFoundException)"

text \<open>
  \<^verbatim>\<open>updateBalance\<close> has two steps, one before and one after its first \<^verbatim>\<open>await\<close>: it
  reads the account, which fails when there is none, and it saves the account it has read
  with the amount added to the balance, \<^verbatim>\<open>Number(account.balance) + amount\<close>, an addition
  of doubles.
\<close>

definition readAccount :: "nat \<Rightarrow> ledger \<Rightarrow> error + Account" where
  "readAccount i s =
     (case accounts s i of
        None \<Rightarrow> Inl NotFoundException
      | Some account \<Rightarrow> Inr account)"

definition saveBalance :: "nat \<Rightarrow> Account \<Rightarrow> real \<Rightarrow> ledger \<Rightarrow> Account \<times> ledger" where
  "saveBalance i account amt s =
     (let a' = account\<lparr>balance := fadd (balance account) (Fin amt)\<rparr>
      in (a', s\<lparr>accounts := (accounts s)(i \<mapsto> a')\<rparr>))"

definition updateBalance :: "nat \<Rightarrow> real \<Rightarrow> ledger \<Rightarrow> (error + Account) \<times> ledger" where
  "updateBalance i amt s =
     (case readAccount i s of
        Inl e \<Rightarrow> (Inl e, s)
      | Inr account \<Rightarrow>
          (let (a', s') = saveBalance i account amt s
           in (Inr a', s')))"

text \<open>
  \<^verbatim>\<open>Promise.all\<close> of two calls of \<^verbatim>\<open>updateBalance\<close>. The calls are started in array
  order and each runs up to its \<^verbatim>\<open>await\<close> of the read before anything else continues, so
  both accounts are read before either is saved; the repository is taken to answer in the
  order it is asked, so the save of the first call is written before the save of the second.
  A call whose read fails saves nothing and does not stop the other call; the whole is
  rejected with the first failure.
\<close>

definition updateBalanceBoth ::
  "nat \<Rightarrow> real \<Rightarrow> nat \<Rightarrow> real \<Rightarrow> ledger \<Rightarrow> (error + unit) \<times> ledger" where
  "updateBalanceBoth i x j y s =
     (let r1 = readAccount i s;
          r2 = readAccount j s;
          s1 = (case r1 of Inl e \<Rightarrow> s | Inr account \<Rightarrow> snd (saveBalance i account x s));
          s2 = (case r2 of Inl e \<Rightarrow> s1 | Inr account \<Rightarrow> snd (saveBalance j account y s1))
      in (case r1 of
            Inl e \<Rightarrow> Inl e
          | Inr _ \<Rightarrow> (case r2 of Inl e \<Rightarrow> Inl e | Inr _ \<Rightarrow> Inr ()),
          s2))"

subsection \<open>Balance effects of a transaction\<close>

definition isFailure :: "(error + 'a) \<Rightarrow> bool" where
  "isFailure r = (case r of Inl _ \<Rightarrow> True | Inr _ \<Rightarrow> False)"

definition updateAccountBalance :: "Transaction \<Rightarrow> ledger \<Rightarrow> (error + unit) \<times> ledger" where
  "updateAccountBalance t s =
     (if ttype t = TRANSFER \<and> truthy (destinationAccountId t) then
        (let (r, s1) = updateBalanceBoth (accountId t) (- \<bar>amount t\<bar>)
                         (the (destinationAccountId t)) \<bar>amount t\<bar> s
         in (if isFailure r then Inl InternalServerErrorException else Inr (), s1))
      else
        (let (r, s1) = updateBalance (accountId t) (amount t) s
         in (if isFailure r then Inl InternalServerErrorException else Inr (), s1)))"

definition reverseAccountBalance :: "Transaction \<Rightarrow> ledger \<Rightarrow> (error + unit) \<times> ledger" where
  "reverseAccountBalance t s =
     (if ttype t = TRANSFER \<and> truthy (destinationAccountId t) then
        (let (r, s1) = updateBalanceBoth (accountId t) \<bar>amount t\<bar>
                         (the (destinationAccountId t)) (- \<bar>amount t\<bar>) s
         in (if isFailure r then Inl InternalServerErrorException else Inr (), s1))
      else
        (let (r, s1) = updateBalance (accountId t) (- amount t) s
         in (if isFailure r then Inl InternalServerErrorException else Inr (), s1)))"

subsection \<open>TransactionsService: create, update, remove\<close>

definition tx_findOne :: "nat \<Rightarrow> nat \<Rightarrow> ledger \<Rightarrow> error + Transaction" where
  "tx_findOne i uid s =
     (case transactions s i of
        None \<Rightarrow> Inl NotFoundException
      | Some t \<Rightarrow> if userId t = uid then Inr t else Inl NotFoundException)"

definition save :: "Transaction \<Rightarrow> ledger \<Rightarrow> ledger" where
  "save t s = s\<lparr>transactions := (transactions s)(tid t \<mapsto> t)\<rparr>"

text \<open>The checks of \<^verbatim>\<open>create\<close> before anything is written; \<open>None\<close> when they pass.\<close>

definition validateCreate :: "nat \<Rightarrow> CreateTransactionDto \<Rightarrow> ledger \<Rightarrow> error option" where
  "validateCreate uid dto s =
     (case acc_findOne (c_accountId dto) uid s of
        Inl e \<Rightarrow> Some e
      | Inr _ \<Rightarrow>
          (if c_type dto = TRANSFER \<and> truthy (c_destinationAccountId dto) then
             (case acc_findOne (the (c_destinationAccountId dto)) uid s of
                Inl e \<Rightarrow> Some e
              | Inr _ \<Rightarrow>
                  if Some (c_accountId dto) = c_destinationAccountId dto
                  then Some BadRequestException else None)
           else None))"

definition newTransaction :: "nat \<Rightarrow> nat \<Rightarrow> CreateTransactionDto \<Rightarrow> Transaction" where
  "newTransaction i uid dto =
     \<lparr>tid = i,
      amount = (if c_type dto = EXPENSE then - \<bar>c_amount dto\<bar> else c_amount dto),
      ttype = c_type dto,
      description = c_description dto,
      date = c_date dto,
      isPaid = (case c_isPaid dto of None \<Rightarrow> False | Some b \<Rightarrow> b),
      accountId = c_accountId dto,
      destinationAccountId = c_destinationAccountId dto,
      categoryId = c_categoryId dto,
      category = None,
      userId = uid\<rparr>"

definition create :: "nat \<Rightarrow> CreateTransactionDto \<Rightarrow> ledger \<Rightarrow> (error + Transaction) \<times> ledger" where
  "create uid dto s =
     (case validateCreate uid dto s of
        Some e \<Rightarrow> (Inl e, s)
      | None \<Rightarrow>
          (let savedTransaction = newTransaction (nextId s) uid dto;
               s1 = (save savedTransaction s)\<lparr>nextId := Suc (nextId s)\<rparr>
           in if isPaid savedTransaction then
                (let (r, s2) = updateAccountBalance savedTransaction s1
                 in (case r of Inl e \<Rightarrow> (Inl e, s2) | Inr _ \<Rightarrow> (Inr savedTransaction, s2)))
              else (Inr savedTransaction, s1)))"

text \<open>The checks of \<^verbatim>\<open>update\<close>, in the order of the source.\<close>

definition validateUpdate :: "nat \<Rightarrow> Transaction \<Rightarrow> UpdateTransactionDto \<Rightarrow> ledger \<Rightarrow> error option" where
  "validateUpdate uid transaction dto s =
     (case (if truthy (u_accountId dto) \<and> u_accountId dto \<noteq> Some (accountId transaction) then
              (case acc_findOne (the (u_accountId dto)) uid s of
                 Inl e \<Rightarrow> Some e
               | Inr _ \<Rightarrow> None)
            else None) of
        Some e \<Rightarrow> Some e
      | None \<Rightarrow>
          (if ttype transaction = TRANSFER \<and> truthy (u_destinationAccountId dto)
              \<and> u_destinationAccountId dto \<noteq> destinationAccountId transaction then
             (case acc_findOne (the (u_destinationAccountId dto)) uid s of
                Inl e \<Rightarrow> Some e
              | Inr _ \<Rightarrow>
                  if u_accountId dto = u_destinationAccountId dto
                  then Some BadRequestException else None)
           else None))"

text \<open>\<^verbatim>\<open>updateTransactionDto.amount || transaction.amount\<close>: an absent or zero amount is falsy.\<close>

definition amountOr :: "UpdateTransactionDto \<Rightarrow> Transaction \<Rightarrow> real" where
  "amountOr dto transaction =
     (case u_amount dto of
        None \<Rightarrow> amount transaction
      | Some a \<Rightarrow> if a \<noteq> 0 then a else amount transaction)"

definition resign :: "Transaction \<Rightarrow> UpdateTransactionDto \<Rightarrow> UpdateTransactionDto" where
  "resign transaction dto =
     (case u_type dto of
        None \<Rightarrow> dto
      | Some ty \<Rightarrow>
          if ty \<noteq> ttype transaction then
            (if ty = EXPENSE then dto\<lparr>u_amount := Some (- \<bar>amountOr dto transaction\<bar>)\<rparr>
             else if ttype transaction = EXPENSE then dto\<lparr>u_amount := Some \<bar>amountOr dto transaction\<bar>\<rparr>
             else dto)
          else dto)"

definition orElse :: "'a option \<Rightarrow> 'a \<Rightarrow> 'a" where
  "orElse v d = (case v of None \<Rightarrow> d | Some x \<Rightarrow> x)"

text \<open>\<^verbatim>\<open>Object.assign(transaction, updateTransactionDto)\<close>: every field the request carries.\<close>

definition assign :: "Transaction \<Rightarrow> UpdateTransactionDto \<Rightarrow> Transaction" where
  "assign transaction dto =
     transaction\<lparr>
       amount := orElse (u_amount dto) (amount transaction),
       ttype := orElse (u_type dto) (ttype transaction),
       description := (case u_description dto of None \<Rightarrow> description transaction | Some d \<Rightarrow> Some d),
       date := orElse (u_date dto) (date transaction),
       isPaid := orElse (u_isPaid dto) (isPaid transaction),
       accountId := orElse (u_accountId dto) (accountId transaction),
       destinationAccountId :=
         (case u_destinationAccountId dto of None \<Rightarrow> destinationAccountId transaction | Some d \<Rightarrow> Some d),
       categoryId := (case u_categoryId dto of None \<Rightarrow> categoryId transaction | Some c \<Rightarrow> Some c)\<rparr>"

definition update :: "nat \<Rightarrow> nat \<Rightarrow> UpdateTransactionDto \<Rightarrow> ledger \<Rightarrow> (error + Transaction) \<times> ledger" where
  "update i uid dto s =
     (case tx_findOne i uid s of
        Inl e \<Rightarrow> (Inl e, s)
      | Inr transaction \<Rightarrow>
          (case validateUpdate uid transaction dto s of
             Some e \<Rightarrow> (Inl e, s)
           | None \<Rightarrow>
               (let oldTransaction = transaction;
                    oldIsPaid = isPaid transaction;
                    updatedTransaction = assign transaction (resign transaction dto);
                    (r1, s1) = (if oldIsPaid then reverseAccountBalance oldTransaction s
                                else (Inr (), s))
                in (case r1 of
                      Inl e \<Rightarrow> (Inl e, s1)
                    | Inr _ \<Rightarrow>
                        (let s2 = save updatedTransaction s1
                         in if isPaid updatedTransaction then
                              (let (r3, s3) = updateAccountBalance updatedTransaction s2
                               in (case r3 of Inl e \<Rightarrow> (Inl e, s3)
                                   | Inr _ \<Rightarrow> (Inr updatedTransaction, s3)))
                            else (Inr updatedTransaction, s2))))))"

definition remove :: "nat \<Rightarrow> nat \<Rightarrow> ledger \<Rightarrow> (error + unit) \<times> ledger" where
  "remove i uid s =
     (case tx_findOne i uid s of
        Inl e \<Rightarrow> (Inl e, s)
      | Inr transaction \<Rightarrow>
          (let (r, s1) = (if isPaid transaction then reverseAccountBalance transaction s
                          else (Inr (), s))
           in (case r of
                 Inl e \<Rightarrow> (Inl e, s1)
               | Inr _ \<Rightarrow> (Inr (), s1\<lparr>transactions := (transactions s1)(tid transaction := None)\<rparr>))))"

section \<open>JavaScript dates\<close>

definition isLeapYear :: "nat \<Rightarrow> bool" where
  "isLeapYear y = (y mod 4 = 0 \<and> (y mod 100 \<noteq> 0 \<or> y mod 400 = 0))"

definition daysInMonth :: "nat \<Rightarrow> nat \<Rightarrow> nat" where
  "daysInMonth y m =
     (if m = 1 then (if isLeapYear y then 29 else 28)
      else if m = 3 \<or> m = 5 \<or> m = 8 \<or> m = 10 then 30 else 31)"

text \<open>
  \<^verbatim>\<open>d.setMonth(m)\<close>: the month is carried into the year, and a day of the month that the
  target month does not have rolls over into the month after it (the 31st of a 30-day month is
  the 1st of the next month; the 29th to 31st of February are the first days of March).
\<close>

definition setMonth :: "JsDate \<Rightarrow> int \<Rightarrow> JsDate" where
  "setMonth d m =
     (let ym = int (fullYear d) * 12 + m;
          y = nat (ym div 12);
          mo = nat (ym mod 12);
          dim = daysInMonth y mo
      in if dayOfMonth d \<le> dim then d\<lparr>fullYear := y, monthIdx := mo\<rparr>
         else d\<lparr>fullYear := nat ((ym + 1) div 12), monthIdx := nat ((ym + 1) mod 12),
                dayOfMonth := dayOfMonth d - dim\<rparr>)"

definition monthNo :: "JsDate \<Rightarrow> nat" where
  "monthNo d = fullYear d * 12 + monthIdx d"

text \<open>
  \<^verbatim>\<open>a <= b\<close> on dates compares the instants; on the calendar fields that is their
  lexicographic order.
\<close>

definition dateLe :: "JsDate \<Rightarrow> JsDate \<Rightarrow> bool" where
  "dateLe a b =
     (monthNo a < monthNo b
      \<or> (monthNo a = monthNo b
          \<and> (dayOfMonth a < dayOfMonth b
              \<or> (dayOfMonth a = dayOfMonth b \<and> msOfDay a \<le> msOfDay b))))"

text \<open>Days from 1970-01-01 to the civil date, and \<^verbatim>\<open>getTime\<close> in milliseconds.\<close>

definition daysFromCivil :: "nat \<Rightarrow> nat \<Rightarrow> nat \<Rightarrow> int" where
  "daysFromCivil y m d =
     (let y' = (if m \<le> 2 then int y - 1 else int y);
          era = y' div 400;
          yoe = y' - era * 400;
          doy = (153 * (if 2 < m then int m - 3 else int m + 9) + 2) div 5 + int d - 1;
          doe = yoe * 365 + yoe div 4 - yoe div 100 + doy
      in era * 146097 + doe - 719468)"

definition getTime :: "JsDate \<Rightarrow> int" where
  "getTime d = daysFromCivil (fullYear d) (monthIdx d + 1) (dayOfMonth d) * 86400000 + int (msOfDay d)"

text \<open>\<^verbatim>\<open>String(n)\<close> for a natural number and \<^verbatim>\<open>padStart(2, '0')\<close>.\<close>

fun digits :: "nat \<Rightarrow> string" where
  "digits n = (if n < 10 then [''0123456789'' ! n] else digits (n div 10) @ [''0123456789'' ! (n mod 10)])"

definition padStart2 :: "string \<Rightarrow> string" where
  "padStart2 s = replicate (2 - length s) (CHR ''0'') @ s"

definition monthKey :: "JsDate \<Rightarrow> string" where
  "monthKey d = digits (fullYear d) @ ''-'' @ padStart2 (digits (monthIdx d + 1))"


subsection \<open>TransactionsService: the reads of the analytics\<close>

text \<open>
  The table is the list of its rows, in the order of their creation. \<^verbatim>\<open>findByPeriod\<close>
  returns the paid rows of the user dated between the two bounds (instants in milliseconds),
  ordered by date, rows of equal date in the order of the table. \<^verbatim>\<open>findRecent\<close> returns
  the rows of the user ordered by date and then by creation, newest first, up to the limit.
\<close>

definition findByPeriod :: "nat \<Rightarrow> int \<Rightarrow> int \<Rightarrow> Transaction list \<Rightarrow> Transaction list" where
  "findByPeriod uid startTime endTime rows =
     sort_key (\<lambda>t. getTime (date t))
       (filter (\<lambda>t. userId t = uid \<and> startTime \<le> getTime (date t) \<and> getTime (date t) \<le> endTime
                    \<and> isPaid t) rows)"

definition findRecent :: "nat \<Rightarrow> nat \<Rightarrow> Transaction list \<Rightarrow> Transaction list" where
  "findRecent uid limit rows =
     take limit (sort_key (\<lambda>t. - getTime (date t)) (rev (filter (\<lambda>t. userId t = uid) rows)))"

section \<open>SpendingForecaster\<close>

record MonthlyAggregate =
  ma_month :: string
  ma_amount :: real

record Prediction =
  p_amount :: real
  p_confidence :: jsnum

fun addToMonth :: "string \<Rightarrow> real \<Rightarrow> (string \<times> real) list \<Rightarrow> (string \<times> real) list" where
  "addToMonth k x [] = [(k, 0 + x)]"
| "addToMonth k x ((k', v) # rest) =
     (if k' = k then (k', v + x) # rest else (k', v) # addToMonth k x rest)"

definition aggregateByMonth :: "Transaction list \<Rightarrow> MonthlyAggregate list" where
  "aggregateByMonth txs =
     map (\<lambda>(month, amt). \<lparr>ma_month = month, ma_amount = \<bar>amt\<bar>\<rparr>)
       (foldl (\<lambda>monthlyMap t. addToMonth (monthKey (date t)) (amount t) monthlyMap) [] txs)"

text \<open>
  The loop that accumulates \<^verbatim>\<open>weightedSum\<close> and \<^verbatim>\<open>weightSum\<close>, from index \<open>i\<close> on.
  The sort by \<^verbatim>\<open>localeCompare\<close> of month keys of the form \<^verbatim>\<open>YYYY-MM\<close> is the sort by
  the lexicographic order of their characters.
\<close>

fun weightedLoop :: "MonthlyAggregate list \<Rightarrow> nat \<Rightarrow> real \<times> real \<Rightarrow> real \<times> real" where
  "weightedLoop [] i acc = acc"
| "weightedLoop (item # rest) i (weightedSum, weightSum) =
     (let weight = real (i + 1)
      in weightedLoop rest (i + 1) (weightedSum + ma_amount item * weight, weightSum + weight))"

definition calculateWeightedMovingAverage :: "MonthlyAggregate list \<Rightarrow> Prediction" where
  "calculateWeightedMovingAverage monthlyData =
     (if length monthlyData < 3 then
        (let sum = foldl (\<lambda>total item. total + ma_amount item) 0 monthlyData
         in \<lparr>p_amount = (if 0 < length monthlyData then sum / real (length monthlyData) else 0),
             p_confidence = Fin 0.3\<rparr>)
      else
        (let sortedData = sort_key ma_month monthlyData;
             (weightedSum, weightSum) = weightedLoop sortedData 0 (0, 0);
             weightedAverage = weightedSum / weightSum;
             variance = foldl (\<lambda>total item. total + (ma_amount item - weightedAverage)\<^sup>2) 0 sortedData
                          / real (length sortedData);
             stdDev = sqrt variance;
             coefficientOfVariation = jdiv stdDev weightedAverage;
             confidence = jminus 1 (jmin coefficientOfVariation 1)
         in \<lparr>p_amount = weightedAverage,
             p_confidence = jtimes confidence (min (real (length sortedData) / 12) 1)\<rparr>))"

text \<open>
  The loop of \<^verbatim>\<open>fillMissingMonths\<close>. It ends because every \<^verbatim>\<open>setMonth\<close> moves
  \<open>current\<close> at least one month on, and it runs only while \<open>current\<close> is not after \<open>endDate\<close>.
\<close>

function fillLoop :: "string list \<Rightarrow> JsDate \<Rightarrow> JsDate \<Rightarrow> MonthlyAggregate list \<Rightarrow> MonthlyAggregate list" where
  "fillLoop existingMonths endDate current result =
     (if dateLe current endDate then
        fillLoop existingMonths endDate (setMonth current (int (monthIdx current) + 1))
          (if monthKey current \<in> set existingMonths then result
           else result @ [\<lparr>ma_month = monthKey current, ma_amount = 0\<rparr>])
      else result)"
  by pat_completeness auto
termination
proof (relation "measure (\<lambda>(existingMonths, endDate, current, result). monthNo endDate + 1 - monthNo current)")
  show "wf (measure (\<lambda>(existingMonths, endDate, current, result). monthNo endDate + 1 - monthNo current))"
    by simp
next
  fix existingMonths :: "string list" and endDate current :: JsDate and result :: "MonthlyAggregate list"
  assume "dateLe current endDate"
  then have le: "monthNo current \<le> monthNo endDate"
    by (auto simp: dateLe_def)
  have divmod: "nat (z div 12) * 12 + nat (z mod 12) = nat z" if z: "0 \<le> z" for z :: int
  proof -
    have "int (nat (z div 12) * 12 + nat (z mod 12)) = z div 12 * 12 + z mod 12"
      using z by (simp add: pos_imp_zdiv_nonneg_iff)
    also have "\<dots> = z" by simp
    finally show ?thesis by linarith
  qed
  let ?ym = "int (fullYear current) * 12 + (int (monthIdx current) + 1)"
  have pos: "0 \<le> ?ym" "0 \<le> ?ym + 1" by simp_all
  have m: "monthNo current < nat ?ym" "monthNo current < nat (?ym + 1)"
    by (simp_all add: monthNo_def)
  have unfolded: "monthNo (setMonth current (int (monthIdx current) + 1)) =
     (if dayOfMonth current \<le> daysInMonth (nat (?ym div 12)) (nat (?ym mod 12))
      then nat (?ym div 12) * 12 + nat (?ym mod 12)
      else nat ((?ym + 1) div 12) * 12 + nat ((?ym + 1) mod 12))"
    by (simp add: setMonth_def monthNo_def Let_def)
  have "monthNo current < monthNo (setMonth current (int (monthIdx current) + 1))"
    unfolding unfolded
    using m divmod [OF pos(1)] divmod [OF pos(2)]
    by (simp only: split: if_split, simp only: simp_thms)
  with le
  show "((existingMonths, endDate, setMonth current (int (monthIdx current) + 1),
          if monthKey current \<in> set existingMonths then result
          else result @ [\<lparr>ma_month = monthKey current, ma_amount = 0\<rparr>]),
         (existingMonths, endDate, current, result))
        \<in> measure (\<lambda>(existingMonths, endDate, current, result). monthNo endDate + 1 - monthNo current)"
    by simp
qed

definition fillMissingMonths :: "MonthlyAggregate list \<Rightarrow> JsDate \<Rightarrow> JsDate \<Rightarrow> MonthlyAggregate list" where
  "fillMissingMonths data startDate endDate = fillLoop (map ma_month data) endDate startDate data"

text \<open>
  \<^verbatim>\<open>getCategoryTrend\<close>, with the clock reading \<open>now\<close> and the rows of the table as
  arguments.
\<close>

definition getCategoryTrend :: "nat \<Rightarrow> nat \<Rightarrow> nat \<Rightarrow> JsDate \<Rightarrow> Transaction list \<Rightarrow> MonthlyAggregate list" where
  "getCategoryTrend uid cid months now rows =
     (let endDate = now;
          startDate = setMonth now (int (monthIdx now) - int months);
          txs = findByPeriod uid (getTime startDate) (getTime endDate) rows;
          categoryTransactions = filter (\<lambda>t. categoryId t = Some cid) txs;
          monthlyData = aggregateByMonth categoryTransactions;
          filled = fillMissingMonths monthlyData startDate endDate
      in sort_key ma_month filled)"

section \<open>AnomalyDetector\<close>

record CategoryStats =
  mean :: jsnum
  median :: jsnum
  stdDev :: jsnum
  smin :: jsnum
  smax :: jsnum

text \<open>
  \<^verbatim>\<open>calculateCategoryStats\<close>, in the arithmetic of doubles. \<^verbatim>\<open>Math.pow(d, 2)\<close> is the
  rounded product of \<open>d\<close> with itself. The numeric sort of the values is the sort of the
  reals they denote. For the empty list the divisions are zero by zero, the two reads of the
  median are \<^verbatim>\<open>undefined\<close>, and \<^verbatim>\<open>Math.min()\<close> and \<^verbatim>\<open>Math.max()\<close> are the infinities.
\<close>

definition mathPow2 :: "jsnum \<Rightarrow> jsnum" where
  "mathPow2 d = fmul d d"

definition calculateCategoryStats :: "Transaction list \<Rightarrow> CategoryStats" where
  "calculateCategoryStats txs =
     (let values = map amount txs;
          sum = foldl (\<lambda>total val. fadd total (Fin val)) (Fin 0) values;
          mean = fdiv sum (Fin (real (length values)));
          squaredDiffs = map (\<lambda>val. mathPow2 (fsub (Fin val) mean)) values;
          variance = fdiv (foldl (\<lambda>total val. fadd total val) (Fin 0) squaredDiffs)
                       (Fin (real (length values)));
          stdDev = fsqrt variance;
          sortedValues = sort values;
          middle = length sortedValues div 2;
          median = (if sortedValues = [] then NaN
                    else if length sortedValues mod 2 = 0
                    then fdiv (fadd (Fin (sortedValues ! (middle - 1))) (Fin (sortedValues ! middle)))
                           (Fin 2)
                    else Fin (sortedValues ! middle))
      in \<lparr>mean = mean, median = median, stdDev = stdDev,
          smin = (if values = [] then PInf else Fin (foldl min (hd values) values)),
          smax = (if values = [] then NInf else Fin (foldl max (hd values) values))\<rparr>)"

text \<open>
  The reason of an anomaly is the label of the message and the percentage it prints (the
  rendering of the percentage by \<^verbatim>\<open>toFixed(0)\<close> and the wording are left out). The
  literals \<^verbatim>\<open>0.9\<close> and \<^verbatim>\<open>1.1\<close> are the doubles nearest to them.
\<close>

datatype reason =
  ExceptionallyHigh jsnum | AboveNormal jsnum | ExceptionallyLow jsnum | BelowNormal jsnum
  | Uncategorized

definition getAnomalyReason :: "Transaction \<Rightarrow> CategoryStats \<Rightarrow> reason" where
  "getAnomalyReason t stats =
     (let amt = Fin (amount t);
          percentDiff = fmul (fdiv (fsub amt (mean stats)) (jabs (mean stats))) (Fin 100)
      in if jless (mean stats) amt then
           (if jless (fmul (smax stats) (roundDouble 0.9)) amt then ExceptionallyHigh (jabs percentDiff)
            else AboveNormal (jabs percentDiff))
         else
           (if jless amt (fmul (smin stats) (roundDouble 1.1)) then ExceptionallyLow (jabs percentDiff)
            else BelowNormal (jabs percentDiff)))"

record AnomalyDetection =
  transactionId :: nat
  a_description :: "string option"
  a_amount :: real
  a_date :: JsDate
  a_categoryId :: "nat option"
  a_categoryName :: string
  anomalyScore :: jsnum
  a_reason :: reason

text \<open>\<^verbatim>\<open>transaction.category?.name || 'Desconhecida'\<close>: an absent or empty name is falsy.\<close>

definition categoryNameOr :: "Transaction \<Rightarrow> string" where
  "categoryNameOr t =
     (case category t of None \<Rightarrow> ''Desconhecida''
      | Some n \<Rightarrow> if n = [] then ''Desconhecida'' else n)"

text \<open>
  \<^verbatim>\<open>transactionsByCategory\<close> is an object keyed by the category identifier. The groups
  are kept in insertion order; \<^verbatim>\<open>Object.entries\<close> lists the keys that are array indices
  (below \<open>2\<^sup>3\<^sup>2 - 1\<close>) first, in ascending order, and then the other keys in insertion order.
\<close>

fun pushTo :: "'k \<Rightarrow> 'v \<Rightarrow> ('k \<times> 'v list) list \<Rightarrow> ('k \<times> 'v list) list" where
  "pushTo k v [] = [(k, [v])]"
| "pushTo k v ((k', vs) # rest) =
     (if k' = k then (k', vs @ [v]) # rest else (k', vs) # pushTo k v rest)"

definition transactionsByCategory :: "Transaction list \<Rightarrow> (nat \<times> Transaction list) list" where
  "transactionsByCategory txs =
     foldl (\<lambda>groups t. if \<not> truthy (categoryId t) then groups
                       else pushTo (the (categoryId t)) t groups) [] txs"

definition objectEntries :: "(nat \<times> 'v) list \<Rightarrow> (nat \<times> 'v) list" where
  "objectEntries groups =
     sort_key fst (filter (\<lambda>g. fst g < 4294967295) groups)
     @ filter (\<lambda>g. \<not> fst g < 4294967295) groups"

text \<open>\<^verbatim>\<open>Math.abs((transaction.amount - stats.mean) / stats.stdDev)\<close>.\<close>

definition zScore :: "Transaction \<Rightarrow> CategoryStats \<Rightarrow> jsnum" where
  "zScore t stats = jabs (fdiv (fsub (Fin (amount t)) (mean stats)) (stdDev stats))"

definition zAnomaly :: "nat \<Rightarrow> CategoryStats \<Rightarrow> Transaction \<Rightarrow> AnomalyDetection" where
  "zAnomaly cid stats t =
     \<lparr>transactionId = tid t, a_description = description t, a_amount = amount t,
      a_date = date t, a_categoryId = Some cid, a_categoryName = categoryNameOr t,
      anomalyScore = jmin (fdiv (zScore t stats) (Fin 4)) 1,
      a_reason = getAnomalyReason t stats\<rparr>"

text \<open>The body of the loop over the categories: the anomalies of one group are pushed.\<close>

definition categoryAnomalies ::
  "nat \<times> Transaction list \<Rightarrow> AnomalyDetection list \<Rightarrow> AnomalyDetection list" where
  "categoryAnomalies g anomalies =
     (let categoryTransactions = snd g in
      if length categoryTransactions < 3 then anomalies
      else
        (let stats = calculateCategoryStats categoryTransactions
         in foldl (\<lambda>acc t. if jgt (zScore t stats) 2 then acc @ [zAnomaly (fst g) stats t] else acc)
              anomalies categoryTransactions))"






text \<open>The z-score anomalies pushed by the loop over the categories, before the merge.\<close>

definition zScoreAnomalies :: "Transaction list \<Rightarrow> AnomalyDetection list" where
  "zScoreAnomalies txs =
     foldl (\<lambda>anomalies g. categoryAnomalies g anomalies) [] (objectEntries (transactionsByCategory txs))"


section \<open>Descriptions\<close>

text \<open>
  A string is a sequence of the characters \<^verbatim>\<open>U+0000\<close> to \<^verbatim>\<open>U+00FF\<close>, the range of
  Latin-1, one character to each 8-bit \<open>char\<close>. On these \<^verbatim>\<open>toLowerCase\<close> maps the letters
  \<^verbatim>\<open>A\<close> to \<^verbatim>\<open>Z\<close> and \<^verbatim>\<open>U+00C0\<close> to \<^verbatim>\<open>U+00DE\<close> (the multiplication sign
  \<^verbatim>\<open>U+00D7\<close> apart) to the character 32 places on. \<^verbatim>\<open>normalize('NFD')\<close> splits an
  accented letter into its base letter and combining marks, and the first \<^verbatim>\<open>replace\<close>
  removes the marks \<^verbatim>\<open>U+0300\<close> to \<^verbatim>\<open>U+036F\<close>: together they map an accented letter to
  its base letter and leave every other character of the range alone. The second
  \<^verbatim>\<open>replace\<close> keeps the word characters \<^verbatim>\<open>[A-Za-z0-9_]\<close> and the white space,
  which in this range is the tab, the line feed, the vertical tab, the form feed, the
  carriage return, the space and the no-break space \<^verbatim>\<open>U+00A0\<close>.
  \<^verbatim>\<open>normalizeDescription\<close> of the anomaly detector trims the result as well.
\<close>

definition toLowerChar :: "char \<Rightarrow> char" where
  "toLowerChar c =
     (case map_of
        (zip (''ABCDEFGHIJKLMNOPQRSTUVWXYZ'' @ [CHR 0xC0, CHR 0xC1, CHR 0xC2, CHR 0xC3, CHR 0xC4,
              CHR 0xC5, CHR 0xC6, CHR 0xC7, CHR 0xC8, CHR 0xC9, CHR 0xCA, CHR 0xCB, CHR 0xCC,
              CHR 0xCD, CHR 0xCE, CHR 0xCF, CHR 0xD0, CHR 0xD1, CHR 0xD2, CHR 0xD3, CHR 0xD4,
              CHR 0xD5, CHR 0xD6, CHR 0xD8, CHR 0xD9, CHR 0xDA, CHR 0xDB, CHR 0xDC, CHR 0xDD,
              CHR 0xDE])
             (''abcdefghijklmnopqrstuvwxyz'' @ [CHR 0xE0, CHR 0xE1, CHR 0xE2, CHR 0xE3, CHR 0xE4,
              CHR 0xE5, CHR 0xE6, CHR 0xE7, CHR 0xE8, CHR 0xE9, CHR 0xEA, CHR 0xEB, CHR 0xEC,
              CHR 0xED, CHR 0xEE, CHR 0xEF, CHR 0xF0, CHR 0xF1, CHR 0xF2, CHR 0xF3, CHR 0xF4,
              CHR 0xF5, CHR 0xF6, CHR 0xF8, CHR 0xF9, CHR 0xFA, CHR 0xFB, CHR 0xFC, CHR 0xFD,
              CHR 0xFE])) c of
        None \<Rightarrow> c | Some l \<Rightarrow> l)"

definition baseLetter :: "char \<Rightarrow> char" where
  "baseLetter c =
     (case map_of
        (zip [CHR 0xC0, CHR 0xC1, CHR 0xC2, CHR 0xC3, CHR 0xC4, CHR 0xC5, CHR 0xC7, CHR 0xC8,
             CHR 0xC9, CHR 0xCA, CHR 0xCB, CHR 0xCC, CHR 0xCD, CHR 0xCE, CHR 0xCF, CHR 0xD1,
             CHR 0xD2, CHR 0xD3, CHR 0xD4, CHR 0xD5, CHR 0xD6, CHR 0xD9, CHR 0xDA, CHR 0xDB,
             CHR 0xDC, CHR 0xDD, CHR 0xE0, CHR 0xE1, CHR 0xE2, CHR 0xE3, CHR 0xE4, CHR 0xE5,
             CHR 0xE7, CHR 0xE8, CHR 0xE9, CHR 0xEA, CHR 0xEB, CHR 0xEC, CHR 0xED, CHR 0xEE,
             CHR 0xEF, CHR 0xF1, CHR 0xF2, CHR 0xF3, CHR 0xF4, CHR 0xF5, CHR 0xF6, CHR 0xF9,
             CHR 0xFA, CHR 0xFB, CHR 0xFC, CHR 0xFD, CHR 0xFF]
             ''AAAAAACEEEEIIIINOOOOOUUUUYaaaaaaceeeeiiiinooooouuuuyy'') c of
        None \<Rightarrow> c | Some b \<Rightarrow> b)"

definition isWordChar :: "char \<Rightarrow> bool" where
  "isWordChar c = (c \<in> set ''abcdefghijklmnopqrstuvwxyzABCDEFGHIJKLMNOPQRSTUVWXYZ0123456789_'')"

definition isSpaceChar :: "char \<Rightarrow> bool" where
  "isSpaceChar c = (c \<in> set [CHR '' '', CHR 0x09, CHR 0x0A, CHR 0x0B, CHR 0x0C, CHR 0x0D, CHR 0xA0])"

definition toLowerCase :: "string \<Rightarrow> string" where
  "toLowerCase s = map toLowerChar s"

definition normalizeText :: "string \<Rightarrow> string" where
  "normalizeText text =
     filter (\<lambda>c. isWordChar c \<or> isSpaceChar c) (map baseLetter (toLowerCase text))"

definition trim :: "string \<Rightarrow> string" where
  "trim s = rev (dropWhile isSpaceChar (rev (dropWhile isSpaceChar s)))"


text \<open>\<^verbatim>\<open>a.includes(b)\<close>: \<open>b\<close> occurs in \<open>a\<close> as a contiguous run.\<close>

definition includes_str :: "string \<Rightarrow> string \<Rightarrow> bool" where
  "includes_str a b = sublist b a"





section \<open>AnomalyDetector: broken recurrences\<close>











section \<open>CategoryClassifier\<close>

datatype CategoryType = CAT_EXPENSE | CAT_INCOME | CAT_BOTH

record Category =
  cat_id :: nat
  cat_name :: string
  cat_type :: CategoryType
  cat_userId :: nat

text \<open>
  \<^verbatim>\<open>CategoriesService.findAll(userId, type)\<close>. The condition of the query is
  \<^verbatim>\<open>{ userId }\<close>, to which a given type adds \<^verbatim>\<open>type = [type, CategoryType.BOTH]\<close>: the
  type of the category is one of the two listed. The rows are ordered by name, ascending
  (the order of the character codes; rows of equal name in the order of the table).
\<close>

definition cat_findAll :: "nat \<Rightarrow> CategoryType option \<Rightarrow> Category list \<Rightarrow> Category list" where
  "cat_findAll uid requested cats =
     sort_key cat_name
       (filter (\<lambda>c. cat_userId c = uid
                     \<and> (case requested of None \<Rightarrow> True
                         | Some ty \<Rightarrow> cat_type c \<in> set [ty, CAT_BOTH]))
          cats)"

text \<open>
  The trained model of the library is a parameter: whether it has been trained, and the
  classifications it returns for a feature string, best first. A label is the decimal string
  of a category identifier, which \<^verbatim>\<open>parseInt\<close> reads back; it is kept as the identifier.
\<close>

record Classifier =
  isModelTrained :: bool
  getClassifications :: "string \<Rightarrow> (nat \<times> real) list"

record Suggestion =
  s_categoryId :: "nat option"
  s_confidence :: real

datatype jsError = TypeError

definition getAmountRange :: "real \<Rightarrow> string" where
  "getAmountRange a =
     (if a < 50 then ''valor_muito_baixo''
      else if a < 100 then ''valor_baixo''
      else if a < 500 then ''valor_medio''
      else if a < 1000 then ''valor_alto''
      else ''valor_muito_alto'')"

text \<open>The word tokenizer: the maximal runs of word characters.\<close>

fun tokenize :: "string \<Rightarrow> string \<Rightarrow> string list" where
  "tokenize [] cur = (if cur = [] then [] else [cur])"
| "tokenize (c # cs) cur =
     (if isWordChar c then tokenize cs (cur @ [c])
      else (if cur = [] then [] else [cur]) @ tokenize cs [])"

fun joinWith :: "string \<Rightarrow> string list \<Rightarrow> string" where
  "joinWith sep [] = []"
| "joinWith sep [w] = w"
| "joinWith sep (w # ws) = w @ sep @ joinWith sep ws"

definition extractFeatures :: "string \<Rightarrow> real \<Rightarrow> string" where
  "extractFeatures d amt =
     (let normalizedDesc = normalizeText d;
          tokens = tokenize normalizedDesc [];
          amountType = (if amt < 0 then ''despesa'' else ''receita'');
          amountRange = getAmountRange \<bar>amt\<bar>
      in joinWith '' '' (tokens @ [amountType, amountRange]))"

definition polarity :: "real \<Rightarrow> CategoryType" where
  "polarity amt = (if amt < 0 then CAT_EXPENSE else CAT_INCOME)"

definition fallbackCategorization :: "real \<Rightarrow> nat \<Rightarrow> Category list \<Rightarrow> Suggestion option" where
  "fallbackCategorization amt uid cats =
     (case cat_findAll uid (Some (polarity amt)) cats of
        [] \<Rightarrow> None
      | c # _ \<Rightarrow> Some \<lparr>s_categoryId = Some (cat_id c), s_confidence = 0.3\<rparr>)"

text \<open>
  The loop of \<^verbatim>\<open>findSimilarTransaction\<close> over the recent transactions. A transaction
  without description makes \<^verbatim>\<open>normalizeText\<close> throw a type error.
\<close>

fun similarLoop :: "string \<Rightarrow> Transaction list \<Rightarrow> jsError + Transaction option" where
  "similarLoop d [] = Inr None"
| "similarLoop d (t # ts) =
     (case description t of
        None \<Rightarrow> Inl TypeError
      | Some td \<Rightarrow>
          (let normalizedTransactionDesc = normalizeText td
           in if includes_str normalizedTransactionDesc d \<or> includes_str d normalizedTransactionDesc
              then Inr (Some t)
              else similarLoop d ts))"

definition findSimilarTransaction :: "string \<Rightarrow> nat \<Rightarrow> Transaction list \<Rightarrow> jsError + Transaction option" where
  "findSimilarTransaction d uid rows = similarLoop d (findRecent uid 100 rows)"

text \<open>
  \<^verbatim>\<open>this.keywordMap[name]\<close>. The keyword map is a plain object, given by the map of its
  own properties, which are arrays of keywords. A name that is not an own property is looked
  up in \<^verbatim>\<open>Object.prototype\<close>: the lower-case names found there are \<^verbatim>\<open>constructor\<close> and
  \<^verbatim>\<open>__proto__\<close>, whose values are a function and an object.
\<close>

datatype property = Keywords "string list" | Inherited | Undefined

definition keywordMapGet :: "(string \<rightharpoonup> string list) \<Rightarrow> string \<Rightarrow> property" where
  "keywordMapGet keywordMap name =
     (case keywordMap name of
        Some keywordsForCategory \<Rightarrow> Keywords keywordsForCategory
      | None \<Rightarrow> if name = ''constructor'' \<or> name = ''__proto__'' then Inherited else Undefined)"

text \<open>
  The loops of \<^verbatim>\<open>matchCategoryByKeywords\<close>. An array is truthy, also when it is empty;
  an inherited value is truthy and not iterable, so the \<^verbatim>\<open>for ... of\<close> over it throws a
  type error.
\<close>

fun keywordLoop ::
  "(string \<rightharpoonup> string list) \<Rightarrow> string \<Rightarrow> Category list \<Rightarrow> jsError + Suggestion option" where
  "keywordLoop keywordMap d [] = Inr None"
| "keywordLoop keywordMap d (c # cs) =
     (case keywordMapGet keywordMap (toLowerCase (cat_name c)) of
        Undefined \<Rightarrow> keywordLoop keywordMap d cs
      | Inherited \<Rightarrow> Inl TypeError
      | Keywords keywordsForCategory \<Rightarrow>
          if list_ex (\<lambda>keyword. includes_str d keyword) keywordsForCategory
          then Inr (Some \<lparr>s_categoryId = Some (cat_id c), s_confidence = 0.7\<rparr>)
          else keywordLoop keywordMap d cs)"

definition matchCategoryByKeywords ::
  "(string \<rightharpoonup> string list) \<Rightarrow> string \<Rightarrow> real \<Rightarrow> nat \<Rightarrow> Category list
     \<Rightarrow> jsError + Suggestion option" where
  "matchCategoryByKeywords keywordMap d amt uid cats =
     keywordLoop keywordMap d (cat_findAll uid (Some (polarity amt)) cats)"

text \<open>The body of the \<^verbatim>\<open>try\<close> block of \<^verbatim>\<open>suggestCategory\<close>.\<close>

definition tryChain ::
  "Classifier \<Rightarrow> (string \<rightharpoonup> string list) \<Rightarrow> Transaction list \<Rightarrow> Category list
     \<Rightarrow> string \<Rightarrow> real \<Rightarrow> nat \<Rightarrow> jsError + Suggestion option" where
  "tryChain cl keywordMap rows cats d amt uid =
     (let classifications = getClassifications cl (extractFeatures d amt)
      in if isModelTrained cl \<and> 0 < length classifications \<and> 0.3 < snd (hd classifications)
         then Inr (Some \<lparr>s_categoryId = Some (fst (hd classifications)),
                          s_confidence = snd (hd classifications)\<rparr>)
         else
           (case findSimilarTransaction (normalizeText d) uid rows of
              Inl e \<Rightarrow> Inl e
            | Inr (Some similarTransaction) \<Rightarrow>
                Inr (Some \<lparr>s_categoryId = categoryId similarTransaction, s_confidence = 0.85\<rparr>)
            | Inr None \<Rightarrow>
                (case matchCategoryByKeywords keywordMap (normalizeText d) amt uid cats of
                   Inl e \<Rightarrow> Inl e
                 | Inr (Some matchedCategory) \<Rightarrow> Inr (Some matchedCategory)
                 | Inr None \<Rightarrow> Inr (fallbackCategorization amt uid cats))))"

text \<open>\<^verbatim>\<open>!description || description.trim() === ''\<close>.\<close>

definition isBlank :: "string option \<Rightarrow> bool" where
  "isBlank desc = (case desc of None \<Rightarrow> True | Some d \<Rightarrow> trim d = [])"

definition suggestCategory ::
  "Classifier \<Rightarrow> (string \<rightharpoonup> string list) \<Rightarrow> Transaction list \<Rightarrow> Category list
     \<Rightarrow> string option \<Rightarrow> real \<Rightarrow> nat \<Rightarrow> Suggestion option" where
  "suggestCategory cl keywordMap rows cats desc amt uid =
     (if isBlank desc then fallbackCategorization amt uid cats
      else
        (case tryChain cl keywordMap rows cats (the desc) amt uid of
           Inl e \<Rightarrow> fallbackCategorization amt uid cats
         | Inr result \<Rightarrow> result))"

section \<open>Quantities of the specification and example data\<close>

subsection \<open>Balance effects of a transaction\<close>

text \<open>The balance of an account, when the account exists.\<close>

definition balanceOf :: "ledger \<Rightarrow> nat \<Rightarrow> jsnum option" where
  "balanceOf s i = map_option balance (accounts s i)"

text \<open>
  The amount that applying transaction \<open>t\<close> adds to the balance of account \<open>i\<close>, and \<open>None\<close>
  for an account that it does not touch. As the specification words it, a transfer with a
  destination adds \<open>\<bar>amount\<bar>\<close> to the destination and \<open>- \<bar>amount\<bar>\<close> to the source, and any
  other transaction adds its signed amount to its account. (A transfer whose source is its
  destination adds \<open>\<bar>amount\<bar>\<close>: the save of the second call is the one that lasts.)
\<close>

definition balanceEffect :: "Transaction \<Rightarrow> nat \<Rightarrow> real option" where
  "balanceEffect t i =
     (if ttype t = TRANSFER \<and> truthy (destinationAccountId t) then
        (if Some i = destinationAccountId t then Some \<bar>amount t\<bar>
         else if i = accountId t then Some (- \<bar>amount t\<bar>)
         else None)
      else (if i = accountId t then Some (amount t) else None))"

text \<open>The balance \<open>b\<close> after \<open>x\<close> has been added to it or taken from it, when \<open>x\<close> is given.\<close>

definition added :: "real option \<Rightarrow> jsnum \<Rightarrow> jsnum" where
  "added x b = (case x of None \<Rightarrow> b | Some v \<Rightarrow> fadd b (Fin v))"

definition removed :: "real option \<Rightarrow> jsnum \<Rightarrow> jsnum" where
  "removed x b = (case x of None \<Rightarrow> b | Some v \<Rightarrow> fadd b (Fin (- v)))"

text \<open>
  The addition of \<open>x\<close> to the balance \<open>b\<close> is exact when \<open>b\<close> is not finite (it stays what it
  is) or when \<open>b\<close> is a double and the sum is a double, so that nothing is rounded.
\<close>

definition exactSum :: "jsnum \<Rightarrow> real \<Rightarrow> bool" where
  "exactSum b x =
     (case b of Fin v \<Rightarrow> roundDouble v = Fin v \<and> roundDouble (v + x) = Fin (v + x) | _ \<Rightarrow> True)"

definition exactEffect :: "Transaction \<Rightarrow> ledger \<Rightarrow> nat \<Rightarrow> bool" where
  "exactEffect t s i =
     (case (balanceOf s i, balanceEffect t i) of
        (Some b, Some x) \<Rightarrow> exactSum b x
      | _ \<Rightarrow> True)"

subsection \<open>A transfer of 200\<close>

definition transfer200 :: Transaction where
  "transfer200 = \<lparr>tid = 5, amount = 200, ttype = TRANSFER, description = Some ''savings'',
                  date = \<lparr>fullYear = 2024, monthIdx = 0, dayOfMonth = 15, msOfDay = 0\<rparr>,
                  isPaid = True, accountId = 1, destinationAccountId = Some 2,
                  categoryId = None, category = None, userId = 1\<rparr>"

text \<open>The same transfer with account 1 as its destination as well.\<close>

definition selfTransfer200 :: Transaction where
  "selfTransfer200 = transfer200\<lparr>destinationAccountId := Some 1\<rparr>"

subsection \<open>A deposit of 0.2 on a balance of 0.1\<close>

text \<open>
  The doubles nearest to 0.1 and 0.2, which the literals \<^verbatim>\<open>0.1\<close> and \<^verbatim>\<open>0.2\<close> denote, an
  account that holds the first and a paid INCOME of the second.
\<close>

definition tenth :: real where
  "tenth = 3602879701896397 / 2 ^ 55"

definition fifth :: real where
  "fifth = 3602879701896397 / 2 ^ 54"

definition dimeLedger :: ledger where
  "dimeLedger = \<lparr>accounts = [3 \<mapsto> \<lparr>balance = Fin tenth, acc_userId = 1\<rparr>],
                 transactions = Map.empty, nextId = 2\<rparr>"

definition deposit :: Transaction where
  "deposit = \<lparr>tid = 2, amount = fifth, ttype = INCOME, description = Some ''coins'',
              date = \<lparr>fullYear = 2024, monthIdx = 0, dayOfMonth = 15, msOfDay = 0\<rparr>,
              isPaid = True, accountId = 3, destinationAccountId = None,
              categoryId = None, category = None, userId = 1\<rparr>"

subsection \<open>The create, update, delete scenario\<close>

definition day0 :: JsDate where
  "day0 = \<lparr>fullYear = 2024, monthIdx = 0, dayOfMonth = 15, msOfDay = 0\<rparr>"

definition noUpdate :: UpdateTransactionDto where
  "noUpdate = \<lparr>u_amount = None, u_type = None, u_description = None, u_date = None,
                u_isPaid = None, u_accountId = None, u_destinationAccountId = None,
                u_categoryId = None\<rparr>"

definition ledgerA :: ledger where
  "ledgerA = \<lparr>accounts = [1 \<mapsto> \<lparr>balance = Fin 1000, acc_userId = 1\<rparr>,
                          2 \<mapsto> \<lparr>balance = Fin 500, acc_userId = 1\<rparr>],
              transactions = Map.empty, nextId = 1\<rparr>"

definition paidExpense50 :: CreateTransactionDto where
  "paidExpense50 = \<lparr>c_amount = 50, c_type = EXPENSE, c_description = Some ''lunch'', c_date = day0,
                    c_isPaid = Some True, c_accountId = 1, c_destinationAccountId = None,
                    c_categoryId = None\<rparr>"

definition afterCreate :: ledger where
  "afterCreate = snd (create 1 paidExpense50 ledgerA)"

definition afterUpdate :: ledger where
  "afterUpdate = snd (update 1 1 (noUpdate\<lparr>u_amount := Some 80\<rparr>) afterCreate)"

definition afterRemove :: ledger where
  "afterRemove = snd (remove 1 1 afterUpdate)"

subsection \<open>Rejection of a transfer onto its own account\<close>

definition paidTransfer200 :: CreateTransactionDto where
  "paidTransfer200 = \<lparr>c_amount = 200, c_type = TRANSFER, c_description = Some ''savings'',
                      c_date = day0, c_isPaid = Some True, c_accountId = 1,
                      c_destinationAccountId = Some 2, c_categoryId = None\<rparr>"

definition afterTransfer :: ledger where
  "afterTransfer = snd (create 1 paidTransfer200 ledgerA)"

subsection \<open>Sign of the stored amount\<close>

definition incomeMinus5 :: CreateTransactionDto where
  "incomeMinus5 = \<lparr>c_amount = - 5, c_type = INCOME, c_description = None, c_date = day0,
                   c_isPaid = None, c_accountId = 1, c_destinationAccountId = None,
                   c_categoryId = None\<rparr>"

definition lunch :: Transaction where
  "lunch = \<lparr>tid = 1, amount = - 50, ttype = EXPENSE, description = Some ''lunch'',
            date = day0, isPaid = True, accountId = 1, destinationAccountId = None,
            categoryId = None, category = None, userId = 1\<rparr>"

subsection \<open>The weighted moving average\<close>

text \<open>
  The quantities of the specification: the aggregates sorted ascending by month, the average
  weighted by position \<open>1..n\<close>, the square root of the population variance around it, and the
  confidence.
\<close>

definition wmaSorted :: "MonthlyAggregate list \<Rightarrow> MonthlyAggregate list" where
  "wmaSorted ms = sort_key ma_month ms"

definition wmaWeightedAverage :: "MonthlyAggregate list \<Rightarrow> real" where
  "wmaWeightedAverage ms =
     (\<Sum>i<length ms. ma_amount (wmaSorted ms ! i) * real (i + 1)) / (\<Sum>i<length ms. real (i + 1))"

definition wmaStdDev :: "MonthlyAggregate list \<Rightarrow> real" where
  "wmaStdDev ms =
     sqrt ((\<Sum>item\<leftarrow>wmaSorted ms. (ma_amount item - wmaWeightedAverage ms)\<^sup>2) / real (length ms))"

definition wmaConfidence :: "MonthlyAggregate list \<Rightarrow> jsnum" where
  "wmaConfidence ms =
     jtimes (jminus 1 (jmin (jdiv (wmaStdDev ms) (wmaWeightedAverage ms)) 1))
       (min (real (length ms) / 12) 1)"

definition food4 :: "MonthlyAggregate list" where
  "food4 = [\<lparr>ma_month = ''2024-01'', ma_amount = 100\<rparr>, \<lparr>ma_month = ''2024-02'', ma_amount = 120\<rparr>,
            \<lparr>ma_month = ''2024-03'', ma_amount = 110\<rparr>, \<lparr>ma_month = ''2024-04'', ma_amount = 130\<rparr>]"

subsection \<open>The monthly series of a category\<close>

definition mar31 :: JsDate where
  "mar31 = \<lparr>fullYear = 2025, monthIdx = 2, dayOfMonth = 31, msOfDay = 43200000\<rparr>"

subsection \<open>The z-score rule\<close>


subsection \<open>Examples of category groups\<close>

text \<open>
  Ten transactions of one category, nine of 10 and one of 110: the mean is 20, the deviation
  30 and the z-score of the last one 3; with them an eleventh transaction without category.
  Five transactions, four of 10 and one of 60: the mean is 20, the deviation 20 and the
  z-score of the last one exactly 2. Five transactions, four of 0.01 and one of 0.36 (the
  doubles nearest to them): in the reals the z-score of the last one is 2, in doubles it is
  2.0000000000000004. Three transactions of 25, three of 0.1, and three of \<open>0.1 / 2\<^sup>5\<^sup>0\<^sup>0\<close>.
\<close>

definition mkTx :: "nat \<Rightarrow> real \<Rightarrow> nat option \<Rightarrow> Transaction" where
  "mkTx i a c =
     \<lparr>tid = i, amount = a, ttype = EXPENSE, description = Some ''market'', date = day0,
      isPaid = True, accountId = 1, destinationAccountId = None, categoryId = c,
      category = None, userId = 1\<rparr>"




definition cent :: real where
  "cent = 5764607523034235 / 2 ^ 59"

definition cents36 :: real where
  "cents36 = 3242591731706757 / 2 ^ 53"

definition centsTx :: "Transaction list" where
  "centsTx = [mkTx 1 cent (Some 3), mkTx 2 cent (Some 3), mkTx 3 cent (Some 3), mkTx 4 cent (Some 3),
              mkTx 5 cents36 (Some 3)]"



definition tiny :: real where
  "tiny = 3602879701896397 / 2 ^ 555"



subsection \<open>The recurrence rule\<close>




subsection \<open>A monthly bill\<close>


definition feb4 :: JsDate where
  "feb4 = \<lparr>fullYear = 2024, monthIdx = 1, dayOfMonth = 4, msOfDay = 0\<rparr>"

definition mar5 :: JsDate where
  "mar5 = \<lparr>fullYear = 2024, monthIdx = 2, dayOfMonth = 5, msOfDay = 0\<rparr>"





subsection \<open>The chain of suggestions\<close>

text \<open>
  The chain as one expression: the type-only suggestion for a blank description; the top
  classification when the model is trained and its value exceeds 0.3; otherwise the scan of
  the recent transactions, newest first, which stops at the first transaction that is similar
  or has no description (the latter ends the chain with the type-only suggestion, through the
  \<^verbatim>\<open>catch\<close> of \<^verbatim>\<open>suggestCategory\<close>); otherwise the scan of the categories, which
  stops at the first category with a keyword in the description or with a name that the
  keyword map inherits (the latter ends the chain with the type-only suggestion as well);
  otherwise the type-only suggestion.
\<close>

definition typeOnlySuggestion :: "real \<Rightarrow> nat \<Rightarrow> Category list \<Rightarrow> Suggestion option" where
  "typeOnlySuggestion amt uid cats =
     (let matching = cat_findAll uid (Some (polarity amt)) cats
      in if matching = [] then None
         else Some \<lparr>s_categoryId = Some (cat_id (hd matching)), s_confidence = 0.3\<rparr>)"

definition isSimilarTo :: "string \<Rightarrow> Transaction \<Rightarrow> bool" where
  "isSimilarTo q t =
     (case description t of
        None \<Rightarrow> False
      | Some td \<Rightarrow> includes_str (normalizeText td) q \<or> includes_str q (normalizeText td))"

definition keywordHit :: "(string \<rightharpoonup> string list) \<Rightarrow> string \<Rightarrow> Category \<Rightarrow> bool" where
  "keywordHit keywordMap q c =
     (case keywordMap (toLowerCase (cat_name c)) of
        None \<Rightarrow> False
      | Some keywords \<Rightarrow> list_ex (\<lambda>keyword. includes_str q keyword) keywords)"

definition inheritedName :: "(string \<rightharpoonup> string list) \<Rightarrow> Category \<Rightarrow> bool" where
  "inheritedName keywordMap c =
     (keywordMap (toLowerCase (cat_name c)) = None
      \<and> toLowerCase (cat_name c) \<in> set [''constructor'', ''__proto__''])"

definition suggestChain ::
  "Classifier \<Rightarrow> (string \<rightharpoonup> string list) \<Rightarrow> Transaction list \<Rightarrow> Category list
     \<Rightarrow> string option \<Rightarrow> real \<Rightarrow> nat \<Rightarrow> Suggestion option" where
  "suggestChain cl keywordMap rows cats desc amt uid =
     (let q = normalizeText (the desc);
          top = hd (getClassifications cl (extractFeatures (the desc) amt))
      in if isBlank desc then typeOnlySuggestion amt uid cats
         else if isModelTrained cl \<and> getClassifications cl (extractFeatures (the desc) amt) \<noteq> []
                 \<and> 0.3 < snd top
           then Some \<lparr>s_categoryId = Some (fst top), s_confidence = snd top\<rparr>
         else
           (case List.find (\<lambda>t. description t = None \<or> isSimilarTo q t) (findRecent uid 100 rows) of
              Some t \<Rightarrow>
                if description t = None then typeOnlySuggestion amt uid cats
                else Some \<lparr>s_categoryId = categoryId t, s_confidence = 0.85\<rparr>
            | None \<Rightarrow>
                (case List.find (\<lambda>c. inheritedName keywordMap c \<or> keywordHit keywordMap q c)
                        (cat_findAll uid (Some (polarity amt)) cats) of
                   Some c \<Rightarrow>
                     if inheritedName keywordMap c then typeOnlySuggestion amt uid cats
                     else Some \<lparr>s_categoryId = Some (cat_id c), s_confidence = 0.7\<rparr>
                 | None \<Rightarrow> typeOnlySuggestion amt uid cats)))"

subsection \<open>A recent transaction without description\<close>

definition noDescTx :: Transaction where
  "noDescTx = \<lparr>tid = 21, amount = - 15, ttype = EXPENSE, description = None, date = mar5,
               isPaid = True, accountId = 4, destinationAccountId = None, categoryId = None,
               category = None, userId = 7\<rparr>"

definition uberTx :: Transaction where
  "uberTx = \<lparr>tid = 20, amount = - 18, ttype = EXPENSE, description = Some ''Uber'', date = feb4,
             isPaid = True, accountId = 4, destinationAccountId = None, categoryId = Some 5,
             category = Some ''Transport'', userId = 7\<rparr>"

definition miscCategory :: Category where
  "miscCategory = \<lparr>cat_id = 9, cat_name = ''Misc'', cat_type = CAT_EXPENSE, cat_userId = 7\<rparr>"

text \<open>
  Two categories of user 7, the first in the order of the names called \<open>Constructor\<close>, and a
  keyword map with keywords for the second.
\<close>

definition constructorCategory :: Category where
  "constructorCategory = \<lparr>cat_id = 8, cat_name = ''Constructor'', cat_type = CAT_EXPENSE, cat_userId = 7\<rparr>"

definition transportCategory :: Category where
  "transportCategory = \<lparr>cat_id = 6, cat_name = ''Transporte'', cat_type = CAT_BOTH, cat_userId = 7\<rparr>"

definition transportKeywords :: "string \<rightharpoonup> string list" where
  "transportKeywords = [''transporte'' \<mapsto> [''uber'', ''taxi'', ''99'', ''cabify'']]"

definition untrained :: Classifier where
  "untrained = \<lparr>isModelTrained = False, getClassifications = (\<lambda>features. [])\<rparr>"

section \<open>Properties\<close>

subsection \<open>Rounding to a double\<close>

lemma pow2_powr: "pow2 e = 2 powr (of_int e)"
proof (cases "0 \<le> e")
  case True
  then have "2 powr (of_int e) = (2::real) powr (real (nat e))" by simp
  also have "\<dots> = 2 ^ nat e" by (simp only: powr_realpow zero_less_numeral)
  finally show ?thesis using True by (simp add: pow2_def)
next
  case False
  then have "2 powr (of_int e) = (2::real) powr (- real (nat (- e)))" by simp
  also have "\<dots> = 1 / 2 powr (real (nat (- e)))" by (simp only: powr_minus_divide)
  also have "\<dots> = 1 / 2 ^ nat (- e)" by (simp only: powr_realpow zero_less_numeral)
  finally show ?thesis using False by (simp add: pow2_def)
qed

lemma pow2_pos: "0 < pow2 e"
  by (simp add: pow2_powr)

lemma pow2_add: "pow2 (a + b) = pow2 a * pow2 b"
  by (simp add: pow2_powr powr_add)

lemma pow2_nat: "pow2 (int n) = 2 ^ n"
  by (simp add: pow2_def)

lemma floor_log2:
  assumes "pow2 k \<le> x" and "x < pow2 (k + 1)"
  shows "\<lfloor>log 2 x\<rfloor> = k"
proof -
  have pos: "0 < x" using assms(1) pow2_pos [of k] by linarith
  have "of_int k \<le> log 2 x"
    using assms(1) pos by (simp add: pow2_powr le_log_iff)
  moreover have "log 2 x < of_int k + 1"
    using assms(2) pos by (simp add: pow2_powr log_less_iff)
  ultimately show ?thesis by linarith
qed

lemma roundHalfEven_of_int: "roundHalfEven (of_int n) = n"
  by (simp add: roundHalfEven_def)

lemma roundHalfEven_near:
  assumes "of_int m - 1 / 2 < x" and "x < of_int m + 1 / 2"
  shows "roundHalfEven x = m"
proof -
  have "\<lfloor>x\<rfloor> = m \<or> \<lfloor>x\<rfloor> = m - 1" using assms by linarith
  then show ?thesis
  proof
    assume f: "\<lfloor>x\<rfloor> = m"
    with assms show ?thesis by (simp add: roundHalfEven_def Let_def)
  next
    assume f: "\<lfloor>x\<rfloor> = m - 1"
    with assms have "1 / 2 < x - of_int (m - 1)" by simp
    with f show ?thesis by (simp add: roundHalfEven_def Let_def)
  qed
qed

text \<open>
  The rounding of a number whose binary order of magnitude \<open>k\<close> is given: this is how
  \<open>roundDouble\<close> is evaluated on a concrete number.
\<close>

lemma roundDouble_eval:
  assumes "pow2 k \<le> \<bar>x\<bar>" and "\<bar>x\<bar> < pow2 (k + 1)"
  shows "roundDouble x =
           (let e = max (k - 52) (- 1074);
                y = of_int (roundHalfEven (x / pow2 e)) * pow2 e
            in if pow2 1024 \<le> \<bar>y\<bar> then (if 0 < x then PInf else NInf) else Fin y)"
proof -
  have "x \<noteq> 0" using assms(1) pow2_pos [of k] by auto
  moreover have "ulpExponent x = max (k - 52) (- 1074)"
    using floor_log2 [OF assms] by (simp add: ulpExponent_def)
  ultimately show ?thesis by (simp add: roundDouble_def)
qed

text \<open>
  A number with a significand of at most 53 bits and an exponent in the range of the doubles
  is a double: rounding returns it.
\<close>

lemma roundDouble_exact:
  assumes x: "x = of_int m * pow2 e" and m: "\<bar>m\<bar> < 2 ^ 53" and e: "- 1074 \<le> e"
    and r: "\<bar>x\<bar> < pow2 1024"
  shows "roundDouble x = Fin x"
proof (cases "x = 0")
  case True
  then show ?thesis by (simp add: roundDouble_def)
next
  case False
  have ax: "\<bar>x\<bar> = of_int \<bar>m\<bar> * pow2 e"
    using pow2_pos [of e] by (simp add: x abs_mult)
  have "of_int \<bar>m\<bar> < (2::real) ^ 53"
    using m by (metis of_int_less_iff of_int_numeral of_int_power)
  then have "\<bar>x\<bar> < 2 ^ 53 * pow2 e"
    using pow2_pos [of e] by (simp add: ax)
  also have "\<dots> = pow2 (53 + e)"
  proof -
    have "pow2 53 = 2 ^ 53" by (simp add: pow2_def)
    then show ?thesis by (simp only: pow2_add)
  qed
  finally have lt: "\<bar>x\<bar> < pow2 (53 + e)" .
  have pos: "0 < \<bar>x\<bar>" using False by simp
  have "log 2 \<bar>x\<bar> < of_int (53 + e)"
    using lt pos by (simp add: pow2_powr log_less_iff)
  then have "\<lfloor>log 2 \<bar>x\<bar>\<rfloor> < 53 + e" by linarith
  then have ue: "ulpExponent x \<le> e"
    using e by (simp add: ulpExponent_def)
  define u where "u = ulpExponent x"
  define d where "d = nat (e - u)"
  have ed: "e = u + int d" using ue by (simp add: d_def u_def)
  have pe: "pow2 e = pow2 u * 2 ^ d"
    by (subst ed) (simp add: pow2_add pow2_nat)
  have "x / pow2 u = of_int m * (pow2 u * 2 ^ d) / pow2 u"
    by (simp only: x pe)
  also have "\<dots> = of_int (m * 2 ^ d)"
    using pow2_pos [of u] by simp
  finally have q: "x / pow2 u = of_int (m * 2 ^ d)" .
  have "of_int (m * 2 ^ d) * pow2 u = x"
    using q pow2_pos [of u] by (simp add: field_simps)
  then have "of_int (roundHalfEven (x / pow2 u)) * pow2 u = x"
    by (simp only: q roundHalfEven_of_int)
  then show ?thesis
    using False r by (simp add: roundDouble_def Let_def u_def)
qed

lemma roundDouble_int:
  assumes "\<bar>m\<bar> < 2 ^ 53"
  shows "roundDouble (of_int m) = Fin (of_int m)"
proof (rule roundDouble_exact [where m = m and e = 0])
  show "of_int m = of_int m * pow2 0" by (simp add: pow2_def)
  show "\<bar>m\<bar> < 2 ^ 53" by fact
  show "- 1074 \<le> (0::int)" by simp
  have "\<bar>of_int m :: real\<bar> < 2 ^ 53"
    using assms by (metis of_int_abs of_int_less_iff of_int_numeral of_int_power)
  also have "\<dots> \<le> pow2 1024" by (simp add: pow2_def)
  finally show "\<bar>of_int m :: real\<bar> < pow2 1024" .
qed

lemma roundDouble_numeral [simp]:
  "numeral w < (9007199254740992::int) \<Longrightarrow> roundDouble (numeral w) = Fin (numeral w)"
  "numeral w < (9007199254740992::int) \<Longrightarrow> roundDouble (- numeral w) = Fin (- numeral w)"
  using roundDouble_int [of "numeral w"] roundDouble_int [of "- numeral w"] by simp_all

lemma roundDouble_0 [simp]: "roundDouble 0 = Fin 0"
  by (simp add: roundDouble_def)

lemma roundDouble_1 [simp]: "roundDouble 1 = Fin 1"
  using roundDouble_int [of 1] by simp

text \<open>The rounding of a square root, from bounds on its square.\<close>

lemma roundDouble_sqrt:
  assumes k: "(pow2 k)\<^sup>2 \<le> v" "v < (pow2 (k + 1))\<^sup>2"
    and m: "((of_int m - 1 / 2) * pow2 (max (k - 52) (- 1074)))\<^sup>2 < v"
           "v < ((of_int m + 1 / 2) * pow2 (max (k - 52) (- 1074)))\<^sup>2" "1 \<le> m"
    and r: "of_int m * pow2 (max (k - 52) (- 1074)) < pow2 1024"
  shows "roundDouble (sqrt v) = Fin (of_int m * pow2 (max (k - 52) (- 1074)))"
proof -
  let ?e = "max (k - 52) (- 1074)"
  have v0: "0 \<le> v" using k(1) by (meson order_trans zero_le_power2)
  have lo: "pow2 k \<le> sqrt v"
    using k(1) by (rule real_le_rsqrt)
  have hi: "sqrt v < pow2 (k + 1)"
    using k(2) pow2_pos [of "k + 1"] by (intro real_less_lsqrt) simp_all
  have s0: "0 \<le> sqrt v" using v0 by simp
  have m0: "0 \<le> (of_int m - 1 / 2) * pow2 ?e"
    using m(3) pow2_pos [of ?e] by simp
  have "(of_int m - 1 / 2) * pow2 ?e < sqrt v"
    using m(1) by (rule real_less_rsqrt)
  then have a: "of_int m - 1 / 2 < sqrt v / pow2 ?e"
    using pow2_pos [of ?e] by (simp add: pos_less_divide_eq)
  have "sqrt v < (of_int m + 1 / 2) * pow2 ?e"
    using m(2) m(3) pow2_pos [of ?e] by (intro real_less_lsqrt) simp_all
  then have b: "sqrt v / pow2 ?e < of_int m + 1 / 2"
    using pow2_pos [of ?e] by (simp add: pos_divide_less_eq)
  have rh: "roundHalfEven (sqrt v / pow2 ?e) = m"
    using a b by (rule roundHalfEven_near)
  have "\<bar>of_int m * pow2 ?e\<bar> < pow2 1024"
    using r m(3) pow2_pos [of ?e] by (simp add: abs_mult)
  then show ?thesis
    using roundDouble_eval [of k "sqrt v"] lo hi s0 rh
    by (simp add: Let_def)
qed

text \<open>
  The rounding at its edges: a tie goes to the even significand, a result half a unit above
  the largest double is the infinity, and half of the smallest positive double is zero.
\<close>

lemma roundDouble_edges:
  "roundDouble (2 ^ 53 + 1) = Fin (2 ^ 53)"
  "roundDouble (2 ^ 53 + 3) = Fin (2 ^ 53 + 4)"
  "roundDouble (2 ^ 1024 - 2 ^ 970) = PInf"
  "roundDouble (1 / 2 ^ 1075) = Fin 0"
  "roundDouble (3 / 2 ^ 1075) = Fin (2 / 2 ^ 1074)"
proof -
  show "roundDouble (2 ^ 53 + 1) = Fin (2 ^ 53)"
    by (subst roundDouble_eval [where k = 53])
       (simp_all add: pow2_def roundHalfEven_def Let_def)
  show "roundDouble (2 ^ 53 + 3) = Fin (2 ^ 53 + 4)"
    by (subst roundDouble_eval [where k = 53])
       (simp_all add: pow2_def roundHalfEven_def Let_def)
  show "roundDouble (2 ^ 1024 - 2 ^ 970) = PInf"
    by (subst roundDouble_eval [where k = 1023])
       (simp_all add: pow2_def roundHalfEven_def Let_def)
  show "roundDouble (1 / 2 ^ 1075) = Fin 0"
    by (subst roundDouble_eval [where k = "- 1075"])
       (simp_all add: pow2_def roundHalfEven_def Let_def)
  show "roundDouble (3 / 2 ^ 1075) = Fin (2 / 2 ^ 1074)"
    by (subst roundDouble_eval [where k = "- 1074"])
       (simp_all add: pow2_def roundHalfEven_def Let_def)
qed

text \<open>
  The constants of the examples are the doubles that the decimal literals 0.1, 0.2, 0.01 and
  0.36 denote.
\<close>

lemma decimal_literals:
  "roundDouble (1 / 10) = Fin tenth"
  "roundDouble (1 / 5) = Fin fifth"
  "roundDouble (1 / 100) = Fin cent"
  "roundDouble (9 / 25) = Fin cents36"
  "tiny = tenth / 2 ^ 500"
proof -
  show "roundDouble (1 / 10) = Fin tenth"
    by (subst roundDouble_eval [where k = "- 4"])
       (simp_all add: tenth_def pow2_def roundHalfEven_def Let_def)
  show "roundDouble (1 / 5) = Fin fifth"
    by (subst roundDouble_eval [where k = "- 3"])
       (simp_all add: fifth_def pow2_def roundHalfEven_def Let_def)
  show "roundDouble (1 / 100) = Fin cent"
    by (subst roundDouble_eval [where k = "- 7"])
       (simp_all add: cent_def pow2_def roundHalfEven_def Let_def)
  show "roundDouble (9 / 25) = Fin cents36"
    by (subst roundDouble_eval [where k = "- 2"])
       (simp_all add: cents36_def pow2_def roundHalfEven_def Let_def)
  show "tiny = tenth / 2 ^ 500"
    by (simp add: tiny_def tenth_def)
qed

subsection \<open>Properties of the balance effects\<close>

lemma saveBalance_ledger:
  "snd (saveBalance i a x s) = s\<lparr>accounts := (accounts s)(i \<mapsto> a\<lparr>balance := fadd (balance a) (Fin x)\<rparr>)\<rparr>"
  by (simp add: saveBalance_def Let_def)

lemma updateBalance_ledger:
  "snd (updateBalance i x s) =
     (case accounts s i of None \<Rightarrow> s
      | Some a \<Rightarrow> s\<lparr>accounts := (accounts s)(i \<mapsto> a\<lparr>balance := fadd (balance a) (Fin x)\<rparr>)\<rparr>)"
  by (simp add: updateBalance_def readAccount_def saveBalance_def Let_def split: option.splits)

lemma updateBalanceBoth_ledger:
  "snd (updateBalanceBoth i x j y s) =
     s\<lparr>accounts := (\<lambda>k. map_option (\<lambda>a. if k = j then a\<lparr>balance := fadd (balance a) (Fin y)\<rparr>
                                          else if k = i then a\<lparr>balance := fadd (balance a) (Fin x)\<rparr>
                                          else a) (accounts s k))\<rparr>"
proof -
  have "accounts (snd (updateBalanceBoth i x j y s)) k =
          map_option (\<lambda>a. if k = j then a\<lparr>balance := fadd (balance a) (Fin y)\<rparr>
                           else if k = i then a\<lparr>balance := fadd (balance a) (Fin x)\<rparr>
                           else a) (accounts s k)" for k
    by (cases "accounts s k")
       (auto simp: updateBalanceBoth_def readAccount_def saveBalance_def Let_def
             split: option.splits)
  moreover have "transactions (snd (updateBalanceBoth i x j y s)) = transactions s"
    and "nextId (snd (updateBalanceBoth i x j y s)) = nextId s"
    by (auto simp: updateBalanceBoth_def readAccount_def saveBalance_def Let_def
             split: option.splits)
  ultimately show ?thesis
    by (intro ledger.equality) (auto simp: fun_eq_iff)
qed

lemma snd_updateAccountBalance:
  "snd (updateAccountBalance t s) =
     s\<lparr>accounts := (\<lambda>i. map_option (\<lambda>a. a\<lparr>balance := added (balanceEffect t i) (balance a)\<rparr>)
                           (accounts s i))\<rparr>"
proof (cases "ttype t = TRANSFER \<and> truthy (destinationAccountId t)")
  case True
  then obtain d where d: "destinationAccountId t = Some d"
    by (auto simp: truthy_def split: option.splits)
  have "(\<lambda>k. map_option (\<lambda>a. if k = d then a\<lparr>balance := fadd (balance a) (Fin \<bar>amount t\<bar>)\<rparr>
                              else if k = accountId t then a\<lparr>balance := fadd (balance a) (Fin (- \<bar>amount t\<bar>))\<rparr>
                              else a) (accounts s k))
        = (\<lambda>i. map_option (\<lambda>a. a\<lparr>balance := added (balanceEffect t i) (balance a)\<rparr>) (accounts s i))"
    using True d by (auto simp: fun_eq_iff balanceEffect_def added_def intro!: map_option_cong)
  with True d show ?thesis
    by (simp add: updateAccountBalance_def split_beta updateBalanceBoth_ledger)
next
  case False
  have "(case accounts s (accountId t) of None \<Rightarrow> s
         | Some a \<Rightarrow> s\<lparr>accounts := (accounts s)(accountId t \<mapsto> a\<lparr>balance := fadd (balance a) (Fin (amount t))\<rparr>)\<rparr>)
        = s\<lparr>accounts := (\<lambda>i. map_option (\<lambda>a. a\<lparr>balance := added (balanceEffect t i) (balance a)\<rparr>)
                           (accounts s i))\<rparr>"
    using False
    by (intro ledger.equality)
       (auto simp: fun_eq_iff balanceEffect_def added_def option.map_ident split: option.splits)
  moreover have "updateAccountBalance t s =
      (let (r, s1) = updateBalance (accountId t) (amount t) s
       in (if isFailure r then Inl InternalServerErrorException else Inr (), s1))"
    unfolding updateAccountBalance_def using False by (rule if_not_P)
  ultimately show ?thesis
    by (simp add: split_beta updateBalance_ledger)
qed

lemma snd_reverseAccountBalance:
  "snd (reverseAccountBalance t s) =
     s\<lparr>accounts := (\<lambda>i. map_option (\<lambda>a. a\<lparr>balance := removed (balanceEffect t i) (balance a)\<rparr>)
                           (accounts s i))\<rparr>"
proof (cases "ttype t = TRANSFER \<and> truthy (destinationAccountId t)")
  case True
  then obtain d where d: "destinationAccountId t = Some d"
    by (auto simp: truthy_def split: option.splits)
  have "(\<lambda>k. map_option (\<lambda>a. if k = d then a\<lparr>balance := fadd (balance a) (Fin (- \<bar>amount t\<bar>))\<rparr>
                              else if k = accountId t then a\<lparr>balance := fadd (balance a) (Fin \<bar>amount t\<bar>)\<rparr>
                              else a) (accounts s k))
        = (\<lambda>i. map_option (\<lambda>a. a\<lparr>balance := removed (balanceEffect t i) (balance a)\<rparr>) (accounts s i))"
    using True d by (auto simp: fun_eq_iff balanceEffect_def removed_def intro!: map_option_cong)
  with True d show ?thesis
    by (simp add: reverseAccountBalance_def split_beta updateBalanceBoth_ledger)
next
  case False
  have "(case accounts s (accountId t) of None \<Rightarrow> s
         | Some a \<Rightarrow> s\<lparr>accounts := (accounts s)(accountId t \<mapsto> a\<lparr>balance := fadd (balance a) (Fin (- amount t))\<rparr>)\<rparr>)
        = s\<lparr>accounts := (\<lambda>i. map_option (\<lambda>a. a\<lparr>balance := removed (balanceEffect t i) (balance a)\<rparr>)
                           (accounts s i))\<rparr>"
    using False
    by (intro ledger.equality)
       (auto simp: fun_eq_iff balanceEffect_def removed_def option.map_ident split: option.splits)
  moreover have "reverseAccountBalance t s =
      (let (r, s1) = updateBalance (accountId t) (- amount t) s
       in (if isFailure r then Inl InternalServerErrorException else Inr (), s1))"
    unfolding reverseAccountBalance_def using False by (rule if_not_P)
  ultimately show ?thesis
    by (simp add: split_beta updateBalance_ledger)
qed

lemma transactions_updateAccountBalance:
  "transactions (snd (updateAccountBalance t s)) = transactions s"
  by (simp add: snd_updateAccountBalance)

lemma exactSum_round_trip:
  assumes "exactSum b x"
  shows "fadd (fadd b (Fin x)) (Fin (- x)) = b"
proof (cases b)
  case (Fin v)
  with assms show ?thesis by (simp add: exactSum_def)
qed simp_all

lemma balanceOf_updateAccountBalance:
  "balanceOf (snd (updateAccountBalance t s)) i = map_option (added (balanceEffect t i)) (balanceOf s i)"
  by (simp add: snd_updateAccountBalance balanceOf_def option.map_comp comp_def)

lemma balanceOf_reverseAccountBalance:
  "balanceOf (snd (reverseAccountBalance t s)) i = map_option (removed (balanceEffect t i)) (balanceOf s i)"
  by (simp add: snd_reverseAccountBalance balanceOf_def option.map_comp comp_def)

lemma exact_round_trip:
  assumes "\<forall>i. exactEffect t s i"
  shows "snd (reverseAccountBalance t (snd (updateAccountBalance t s))) = s"
proof -
  have "map_option (\<lambda>a. a\<lparr>balance := removed (balanceEffect t i) (added (balanceEffect t i) (balance a))\<rparr>)
          (accounts s i) = accounts s i" for i
  proof (cases "accounts s i")
    case None
    then show ?thesis by simp
  next
    case (Some a)
    show ?thesis
    proof (cases "balanceEffect t i")
      case None
      with Some show ?thesis by (simp add: removed_def added_def)
    next
      case (Some x)
      with \<open>accounts s i = Some a\<close> assms have "exactSum (balance a) x"
        by (auto simp: exactEffect_def balanceOf_def dest: spec [where x = i])
      then have "fadd (fadd (balance a) (Fin x)) (Fin (- x)) = balance a"
        by (rule exactSum_round_trip)
      with Some \<open>accounts s i = Some a\<close> show ?thesis
        by (simp add: removed_def added_def)
    qed
  qed
  then show ?thesis
    by (simp add: snd_reverseAccountBalance snd_updateAccountBalance option.map_comp comp_def)
qed

text \<open>
  Claim C2 as stated fails: the additions are additions of doubles, and adding an amount and
  then its opposite need not give back the balance. On a balance of 0.1 a paid INCOME of 0.2
  leaves 0.30000000000000004 when it is applied and 0.10000000000000003 when it is reversed.
\<close>

theorem apply_then_reverse_rounding_counterexample:
  "balanceOf dimeLedger 3 = Some (Fin (3602879701896397 / 2 ^ 55))
   \<and> balanceOf (snd (updateAccountBalance deposit dimeLedger)) 3
       = Some (Fin (1351079888211149 / 2 ^ 52))
   \<and> balanceOf (snd (reverseAccountBalance deposit (snd (updateAccountBalance deposit dimeLedger)))) 3
       = Some (Fin (1801439850948199 / 2 ^ 54))
   \<and> balanceOf (snd (reverseAccountBalance deposit (snd (updateAccountBalance deposit dimeLedger)))) 3
       \<noteq> balanceOf dimeLedger 3"
proof -
  have up: "fadd (Fin tenth) (Fin fifth) = Fin (1351079888211149 / 2 ^ 52)"
    unfolding fadd.simps
    by (subst roundDouble_eval [where k = "- 2"])
       (simp_all add: tenth_def fifth_def pow2_def roundHalfEven_def Let_def)
  have down: "fadd (Fin (1351079888211149 / 2 ^ 52)) (Fin (- fifth)) = Fin (1801439850948199 / 2 ^ 54)"
    unfolding fadd.simps
    by (subst roundDouble_eval [where k = "- 4"])
       (simp_all add: fifth_def pow2_def roundHalfEven_def Let_def)
  have e: "balanceEffect deposit 3 = Some fifth"
    by (simp add: balanceEffect_def deposit_def)
  have b: "balanceOf dimeLedger 3 = Some (Fin tenth)"
    by (simp add: balanceOf_def dimeLedger_def)
  have a: "balanceOf (snd (updateAccountBalance deposit dimeLedger)) 3
             = Some (Fin (1351079888211149 / 2 ^ 52))"
    by (simp only: balanceOf_updateAccountBalance e b added_def up option.map option.case)
  have r: "balanceOf (snd (reverseAccountBalance deposit (snd (updateAccountBalance deposit dimeLedger)))) 3
             = Some (Fin (1801439850948199 / 2 ^ 54))"
    by (simp only: balanceOf_reverseAccountBalance a e removed_def down option.map option.case)
  have "(1801439850948199 / 2 ^ 54 :: real) \<noteq> tenth"
    by (simp add: tenth_def)
  with a r b show ?thesis
    by (simp add: tenth_def)
qed

text \<open>
  Claim C2 as amended. Applying a transaction adds to every account the amount of its balance
  effect, by an addition of doubles, and reversing adds the opposite amount: for a transfer
  with a destination \<open>- \<bar>amount\<bar>\<close> then \<open>+ \<bar>amount\<bar>\<close> on the source and \<open>+ \<bar>amount\<bar>\<close> then
  \<open>- \<bar>amount\<bar>\<close> on the destination, for any other transaction \<open>amount\<close> then \<open>- amount\<close> on
  its account. So applying and then reversing leaves the balance \<open>b\<close> of a touched account at
  \<open>(b + x) - x\<close> in the arithmetic of doubles. That is \<open>b\<close> whenever the first addition is
  exact, and then the ledger is the one before the transaction was applied.
\<close>

theorem apply_then_reverse_exact:
  "balanceOf (snd (updateAccountBalance t s)) i
     = map_option (added (balanceEffect t i)) (balanceOf s i)
   \<and> balanceOf (snd (reverseAccountBalance t s')) i
       = map_option (removed (balanceEffect t i)) (balanceOf s' i)
   \<and> balanceOf (snd (reverseAccountBalance t (snd (updateAccountBalance t s)))) i
       = map_option (\<lambda>b. removed (balanceEffect t i) (added (balanceEffect t i) b)) (balanceOf s i)
   \<and> added (Some x) b = fadd b (Fin x) \<and> removed (Some x) b = fadd b (Fin (- x))
   \<and> added None b = b \<and> removed None b = b
   \<and> (exactSum b x \<longrightarrow> removed (Some x) (added (Some x) b) = b)
   \<and> ((\<forall>i. exactEffect t s i)
        \<longrightarrow> snd (reverseAccountBalance t (snd (updateAccountBalance t s))) = s)"
proof (intro conjI impI)
  show "balanceOf (snd (updateAccountBalance t s)) i
     = map_option (added (balanceEffect t i)) (balanceOf s i)"
    by (rule balanceOf_updateAccountBalance)
  show "balanceOf (snd (reverseAccountBalance t s')) i
       = map_option (removed (balanceEffect t i)) (balanceOf s' i)"
    by (rule balanceOf_reverseAccountBalance)
  show "balanceOf (snd (reverseAccountBalance t (snd (updateAccountBalance t s)))) i
       = map_option (\<lambda>b. removed (balanceEffect t i) (added (balanceEffect t i) b)) (balanceOf s i)"
    by (simp add: balanceOf_reverseAccountBalance balanceOf_updateAccountBalance
          option.map_comp comp_def)
  show "added (Some x) b = fadd b (Fin x)" "removed (Some x) b = fadd b (Fin (- x))"
    "added None b = b" "removed None b = b"
    by (simp_all add: added_def removed_def)
next
  assume "exactSum b x"
  then show "removed (Some x) (added (Some x) b) = b"
    by (simp add: added_def removed_def exactSum_round_trip)
next
  assume "\<forall>i. exactEffect t s i"
  then show "snd (reverseAccountBalance t (snd (updateAccountBalance t s))) = s"
    by (rule exact_round_trip)
qed

theorem apply_then_reverse_exact_witness:
  "exactSum (Fin 1000) (- 200) \<and> exactSum (Fin 500) 200
   \<and> (\<forall>i. exactEffect transfer200 ledgerA i)
   \<and> balanceOf (snd (updateAccountBalance transfer200 ledgerA)) 1 = Some (Fin 800)
   \<and> balanceOf (snd (updateAccountBalance transfer200 ledgerA)) 2 = Some (Fin 700)
   \<and> removed (Some (- 200)) (added (Some (- 200)) (Fin 1000)) = Fin 1000
   \<and> snd (reverseAccountBalance transfer200 (snd (updateAccountBalance transfer200 ledgerA))) = ledgerA"
proof -
  have e: "balanceEffect transfer200 i = (if i = 2 then Some 200 else if i = 1 then Some (- 200) else None)" for i
    by (simp add: balanceEffect_def transfer200_def truthy_def)
  have b: "balanceOf ledgerA i = (if i = 1 then Some (Fin 1000) else if i = 2 then Some (Fin 500) else None)" for i
    by (simp add: balanceOf_def ledgerA_def)
  have x: "exactSum (Fin 1000) (- 200)" "exactSum (Fin 500) 200"
    by (simp_all add: exactSum_def)
  have all: "\<forall>i. exactEffect transfer200 ledgerA i"
    by (simp add: exactEffect_def e b x)
  note r1 = apply_then_reverse_exact [of transfer200 ledgerA 1 ledgerA "- 200" "Fin 1000"]
  note r2 = apply_then_reverse_exact [of transfer200 ledgerA 2 ledgerA 200 "Fin 500"]
  have b1: "balanceOf (snd (updateAccountBalance transfer200 ledgerA)) 1 = Some (Fin 800)"
    using r1 by (simp add: e b added_def)
  have b2: "balanceOf (snd (updateAccountBalance transfer200 ledgerA)) 2 = Some (Fin 700)"
    using r2 by (simp add: e b added_def)
  have rt: "removed (Some (- 200)) (added (Some (- 200)) (Fin 1000)) = Fin 1000"
    using r1 x by blast
  have "snd (reverseAccountBalance transfer200 (snd (updateAccountBalance transfer200 ledgerA))) = ledgerA"
    using r1 all by blast
  with x all b1 b2 rt show ?thesis by blast
qed

text \<open>
  A transfer whose source is its destination: both calls read the balance 1000, the first
  saves 800 and the second 1200; reversing it reads 1200 twice, saves 1400 and then 1000.
\<close>

lemma transfer_onto_itself:
  "balanceOf (snd (updateAccountBalance selfTransfer200 ledgerA)) 1 = Some (Fin 1200)
   \<and> balanceOf (snd (reverseAccountBalance selfTransfer200
                         (snd (updateAccountBalance selfTransfer200 ledgerA)))) 1 = Some (Fin 1000)"
proof -
  have e: "balanceEffect selfTransfer200 1 = Some 200"
    by (simp add: balanceEffect_def selfTransfer200_def transfer200_def truthy_def)
  have b: "balanceOf ledgerA 1 = Some (Fin 1000)"
    by (simp add: balanceOf_def ledgerA_def)
  show ?thesis
    unfolding balanceOf_reverseAccountBalance balanceOf_updateAccountBalance e b
    by (simp add: added_def removed_def)
qed

subsection \<open>The create, update, delete scenario\<close>

lemma afterCreate_eq:
  "afterCreate =
     \<lparr>accounts = [1 \<mapsto> \<lparr>balance = Fin 950, acc_userId = 1\<rparr>, 2 \<mapsto> \<lparr>balance = Fin 500, acc_userId = 1\<rparr>],
      transactions = [1 \<mapsto> \<lparr>tid = 1, amount = - 50, ttype = EXPENSE, description = Some ''lunch'',
                              date = day0, isPaid = True, accountId = 1, destinationAccountId = None,
                              categoryId = None, category = None, userId = 1\<rparr>],
      nextId = 2\<rparr>"
  by (simp add: afterCreate_def create_def validateCreate_def acc_findOne_def ledgerA_def
        paidExpense50_def newTransaction_def save_def updateAccountBalance_def updateBalance_def updateBalanceBoth_def readAccount_def saveBalance_def
        isFailure_def truthy_def Let_def fun_upd_twist)

lemma afterUpdate_eq:
  "afterUpdate =
     \<lparr>accounts = [1 \<mapsto> \<lparr>balance = Fin 1080, acc_userId = 1\<rparr>, 2 \<mapsto> \<lparr>balance = Fin 500, acc_userId = 1\<rparr>],
      transactions = [1 \<mapsto> \<lparr>tid = 1, amount = 80, ttype = EXPENSE, description = Some ''lunch'',
                              date = day0, isPaid = True, accountId = 1, destinationAccountId = None,
                              categoryId = None, category = None, userId = 1\<rparr>],
      nextId = 2\<rparr>"
  by (simp add: afterUpdate_def afterCreate_eq update_def tx_findOne_def validateUpdate_def
        noUpdate_def resign_def assign_def orElse_def save_def reverseAccountBalance_def
        updateAccountBalance_def updateBalance_def updateBalanceBoth_def readAccount_def saveBalance_def isFailure_def truthy_def Let_def fun_upd_twist)

text \<open>
  Claim C1, evaluated on the scenario of the specification. Account 1 starts at 1000. Creating
  a paid EXPENSE of 50 stores the amount \<open>- 50\<close> and leaves 950. The update request that
  carries only \<open>amount = 80\<close> does not change the type, so the amount is not re-signed: the
  reversal of the snapshot gives 1000, the transaction is stored with amount \<open>+ 80\<close>, and
  applying it leaves 1080, not 920. Removing the transaction gives 1000 again.
\<close>

theorem update_expense_amount_scenario:
  "balanceOf ledgerA 1 = Some (Fin 1000)
   \<and> balanceOf afterCreate 1 = Some (Fin 950)
   \<and> balanceOf afterUpdate 1 = Some (Fin 1080)
   \<and> map_option amount (transactions afterUpdate 1) = Some 80
   \<and> map_option ttype (transactions afterUpdate 1) = Some EXPENSE
   \<and> balanceOf afterRemove 1 = Some (Fin 1000)
   \<and> transactions afterRemove 1 = None"
  by (simp add: afterRemove_def afterUpdate_eq afterCreate_eq balanceOf_def ledgerA_def
        remove_def tx_findOne_def reverseAccountBalance_def updateBalance_def updateBalanceBoth_def readAccount_def saveBalance_def isFailure_def
        truthy_def Let_def fun_upd_twist)

text \<open>
  The order of the three steps of \<^verbatim>\<open>update\<close>, for a request that passes the checks: the
  snapshot taken before the update is reversed when it was paid, the new state is stored, and
  the new state is applied when it is paid.
\<close>

lemma update_reverse_persist_apply:
  assumes "tx_findOne i uid s = Inr old"
    and "validateUpdate uid old dto s = None"
    and "isPaid old \<longrightarrow> \<not> isFailure (fst (reverseAccountBalance old s))"
  shows "snd (update i uid dto s) =
           (let new = assign old (resign old dto);
                s1 = (if isPaid old then snd (reverseAccountBalance old s) else s);
                s2 = save new s1
            in if isPaid new then snd (updateAccountBalance new s2) else s2)"
  using assms
  by (auto simp: update_def Let_def isFailure_def split_beta split: sum.splits)

subsection \<open>Rejection of a transfer onto its own account\<close>

lemma create_transfer_same_account_rejected:
  assumes "c_type dto = TRANSFER" and "truthy (c_destinationAccountId dto)"
    and "c_destinationAccountId dto = Some (c_accountId dto)"
  shows "isFailure (fst (create uid dto s)) \<and> snd (create uid dto s) = s
         \<and> (acc_findOne (c_accountId dto) uid s \<noteq> Inl NotFoundException
              \<longrightarrow> fst (create uid dto s) = Inl BadRequestException)"
  using assms
  by (auto simp: create_def validateCreate_def isFailure_def acc_findOne_def
           split: sum.splits option.splits if_splits)

lemma afterTransfer_eq:
  "afterTransfer =
     \<lparr>accounts = [1 \<mapsto> \<lparr>balance = Fin 800, acc_userId = 1\<rparr>, 2 \<mapsto> \<lparr>balance = Fin 700, acc_userId = 1\<rparr>],
      transactions = [1 \<mapsto> \<lparr>tid = 1, amount = 200, ttype = TRANSFER, description = Some ''savings'',
                              date = day0, isPaid = True, accountId = 1,
                              destinationAccountId = Some 2,
                              categoryId = None, category = None, userId = 1\<rparr>],
      nextId = 2\<rparr>"
  by (simp add: afterTransfer_def create_def validateCreate_def acc_findOne_def ledgerA_def
        paidTransfer200_def newTransaction_def save_def updateAccountBalance_def updateBalance_def updateBalanceBoth_def readAccount_def saveBalance_def
        isFailure_def truthy_def Let_def fun_upd_twist)

text \<open>
  Claim C4, evaluated. The stored transfer goes from account 1 to account 2. An update request
  that carries only \<open>destinationAccountId = 1\<close> passes the checks, because the comparison is
  between the two fields of the request and the request has no \<open>accountId\<close>; an update
  request that carries only \<open>accountId = 2\<close> is not compared at all. Both are stored with
  source and destination equal.
\<close>

theorem update_transfer_same_account_stored:
  "fst (update 1 1 (noUpdate\<lparr>u_destinationAccountId := Some 1\<rparr>) afterTransfer)
     = Inr \<lparr>tid = 1, amount = 200, ttype = TRANSFER, description = Some ''savings'',
            date = day0, isPaid = True, accountId = 1, destinationAccountId = Some 1,
            categoryId = None, category = None, userId = 1\<rparr>
   \<and> map_option destinationAccountId
        (transactions (snd (update 1 1 (noUpdate\<lparr>u_destinationAccountId := Some 1\<rparr>) afterTransfer)) 1)
     = Some (Some 1)
   \<and> fst (update 1 1 (noUpdate\<lparr>u_accountId := Some 2\<rparr>) afterTransfer)
     = Inr \<lparr>tid = 1, amount = 200, ttype = TRANSFER, description = Some ''savings'',
            date = day0, isPaid = True, accountId = 2, destinationAccountId = Some 2,
            categoryId = None, category = None, userId = 1\<rparr>
   \<and> map_option accountId
        (transactions (snd (update 1 1 (noUpdate\<lparr>u_accountId := Some 2\<rparr>) afterTransfer)) 1)
     = Some 2"
  by (simp add: afterTransfer_eq update_def tx_findOne_def validateUpdate_def acc_findOne_def
        noUpdate_def resign_def assign_def orElse_def save_def reverseAccountBalance_def
        updateAccountBalance_def updateBalance_def updateBalanceBoth_def readAccount_def saveBalance_def isFailure_def truthy_def Let_def fun_upd_twist)

subsection \<open>Sign of the stored amount\<close>

text \<open>
  Claim C3 as stated fails: \<^verbatim>\<open>create\<close> negates the magnitude for an EXPENSE and keeps
  the given amount for every other type, so an INCOME given as \<open>- 5\<close> is stored as \<open>- 5\<close>.
\<close>

theorem create_income_negative_counterexample:
  "transactions (snd (create 1 incomeMinus5 ledgerA)) 1
     = Some \<lparr>tid = 1, amount = - 5, ttype = INCOME, description = None, date = day0,
             isPaid = False, accountId = 1, destinationAccountId = None, categoryId = None,
             category = None, userId = 1\<rparr>
   \<and> \<not> (0 \<le> amount (the (transactions (snd (create 1 incomeMinus5 ledgerA)) 1)))"
  by (simp add: create_def validateCreate_def acc_findOne_def ledgerA_def incomeMinus5_def
        newTransaction_def save_def truthy_def Let_def)

lemma create_result:
  assumes "fst (create uid dto s) = Inr t"
  shows "t = newTransaction (nextId s) uid dto \<and> transactions (snd (create uid dto s)) (tid t) = Some t"
proof -
  note app = transactions_updateAccountBalance
  from assms have t: "t = newTransaction (nextId s) uid dto"
    by (auto simp: create_def Let_def split_beta split: option.splits if_splits sum.splits)
  from assms have v: "validateCreate uid dto s = None"
    by (auto simp: create_def split: option.splits)
  have "transactions (snd (create uid dto s)) (tid t) = Some t"
    using v unfolding t
    by (auto simp: create_def Let_def split_beta app save_def newTransaction_def split: sum.splits)
  with t show ?thesis by simp
qed

lemma update_result:
  assumes "tx_findOne i uid s = Inr old" and "fst (update i uid dto s) = Inr t"
  shows "t = assign old (resign old dto) \<and> transactions (snd (update i uid dto s)) (tid t) = Some t"
proof -
  note app = transactions_updateAccountBalance
  from assms have t: "t = assign old (resign old dto)"
    by (auto simp: update_def Let_def split_beta split: option.splits if_splits sum.splits)
  have "transactions (snd (update i uid dto s)) (tid t) = Some t"
    using assms unfolding t
    by (auto simp: update_def Let_def split_beta app save_def split: option.splits if_splits sum.splits)
  with t show ?thesis by simp
qed

text \<open>
  Claim C3 as amended. A transaction that \<^verbatim>\<open>create\<close> returns is stored with the amount
  \<open>- \<bar>a\<bar>\<close>, hence not positive, when its type is EXPENSE, and with the given amount \<open>a\<close>
  unchanged for every other type. A transaction that \<^verbatim>\<open>update\<close> returns for a request
  whose type differs from the stored type is stored with the new type and with the amount
  \<open>- \<bar>a\<bar>\<close> when the new type is EXPENSE, and \<open>\<bar>a\<bar>\<close> when the old type was EXPENSE, where
  \<open>a\<close> is the amount of the request when present and not zero, and the stored amount
  otherwise.
\<close>

theorem sign_normalization:
  "(fst (create uid dto s) = Inr t \<longrightarrow>
      transactions (snd (create uid dto s)) (tid t) = Some t
      \<and> ttype t = c_type dto
      \<and> amount t = (if c_type dto = EXPENSE then - \<bar>c_amount dto\<bar> else c_amount dto)
      \<and> (ttype t = EXPENSE \<longrightarrow> amount t \<le> 0))
   \<and> (tx_findOne i uid' s' = Inr old \<and> u_type dto' = Some ty \<and> ty \<noteq> ttype old
        \<and> fst (update i uid' dto' s') = Inr t' \<longrightarrow>
      transactions (snd (update i uid' dto' s')) (tid t') = Some t'
      \<and> ttype t' = ty
      \<and> (ty = EXPENSE \<longrightarrow> amount t' = - \<bar>amountOr dto' old\<bar> \<and> amount t' \<le> 0)
      \<and> (ttype old = EXPENSE \<longrightarrow> amount t' = \<bar>amountOr dto' old\<bar> \<and> 0 \<le> amount t'))"
proof (intro conjI impI)
  assume c: "fst (create uid dto s) = Inr t"
  note r = create_result [OF c, THEN conjunct1]
  show "transactions (snd (create uid dto s)) (tid t) = Some t"
    by (rule create_result [OF c, THEN conjunct2])
  show "ttype t = c_type dto" by (simp add: r newTransaction_def)
  show a: "amount t = (if c_type dto = EXPENSE then - \<bar>c_amount dto\<bar> else c_amount dto)"
    by (simp add: r newTransaction_def)
  assume "ttype t = EXPENSE"
  then show "amount t \<le> 0" by (simp add: r newTransaction_def)
next
  assume u: "tx_findOne i uid' s' = Inr old \<and> u_type dto' = Some ty \<and> ty \<noteq> ttype old
        \<and> fst (update i uid' dto' s') = Inr t'"
  then have f: "tx_findOne i uid' s' = Inr old" and g: "fst (update i uid' dto' s') = Inr t'"
    by simp_all
  note r = update_result [OF f g, THEN conjunct1]
  note st = update_result [OF f g, THEN conjunct2]
  from st show "transactions (snd (update i uid' dto' s')) (tid t') = Some t'" .
  from u r show "ttype t' = ty"
    by (simp add: assign_def resign_def orElse_def)
  {
    assume "ty = EXPENSE"
    with u r have "amount t' = - \<bar>amountOr dto' old\<bar>"
      by (simp add: assign_def resign_def orElse_def)
    then show "amount t' = - \<bar>amountOr dto' old\<bar>" and "amount t' \<le> 0" by simp_all
  }
  {
    assume "ttype old = EXPENSE"
    with u r have "amount t' = \<bar>amountOr dto' old\<bar>"
      by (auto simp: assign_def resign_def orElse_def)
    then show "amount t' = \<bar>amountOr dto' old\<bar>" and "0 \<le> amount t'" by simp_all
  }
qed

lemma create_lunch: "fst (create 1 paidExpense50 ledgerA) = Inr lunch"
  by (simp add: create_def validateCreate_def acc_findOne_def ledgerA_def lunch_def
        paidExpense50_def newTransaction_def save_def updateAccountBalance_def updateBalance_def updateBalanceBoth_def readAccount_def saveBalance_def
        isFailure_def truthy_def Let_def)

lemma update_lunch_to_income:
  "fst (update 1 1 (noUpdate\<lparr>u_type := Some INCOME\<rparr>) afterCreate)
     = Inr (lunch\<lparr>amount := 50, ttype := INCOME\<rparr>)"
  by (simp add: afterCreate_eq update_def tx_findOne_def validateUpdate_def lunch_def
        noUpdate_def resign_def amountOr_def assign_def orElse_def save_def
        reverseAccountBalance_def updateAccountBalance_def updateBalance_def updateBalanceBoth_def readAccount_def saveBalance_def isFailure_def
        truthy_def Let_def fun_upd_twist)

theorem sign_normalization_witness:
  "fst (create 1 paidExpense50 ledgerA) = Inr lunch
   \<and> ttype lunch = EXPENSE \<and> amount lunch = - 50 \<and> amount lunch \<le> 0
   \<and> tx_findOne 1 1 afterCreate = Inr lunch
   \<and> fst (update 1 1 (noUpdate\<lparr>u_type := Some INCOME\<rparr>) afterCreate)
       = Inr (lunch\<lparr>amount := 50, ttype := INCOME\<rparr>)
   \<and> amount (lunch\<lparr>amount := 50, ttype := INCOME\<rparr>) = \<bar>amountOr (noUpdate\<lparr>u_type := Some INCOME\<rparr>) lunch\<bar>
   \<and> 0 \<le> amount (lunch\<lparr>amount := 50, ttype := INCOME\<rparr>)"
proof -
  have f: "tx_findOne 1 1 afterCreate = Inr lunch"
    by (simp add: afterCreate_eq tx_findOne_def lunch_def)
  have ty: "u_type (noUpdate\<lparr>u_type := Some INCOME\<rparr>) = Some INCOME" "INCOME \<noteq> ttype lunch"
    "ttype lunch = EXPENSE"
    by (simp_all add: lunch_def)
  show ?thesis
    using sign_normalization [of 1 paidExpense50 ledgerA lunch 1 1 afterCreate lunch
        "noUpdate\<lparr>u_type := Some INCOME\<rparr>" INCOME "lunch\<lparr>amount := 50, ttype := INCOME\<rparr>"]
      create_lunch update_lunch_to_income f ty
    by (simp add: lunch_def paidExpense50_def)
qed

subsection \<open>The weighted moving average\<close>

lemma foldl_add_sum_list:
  "foldl (\<lambda>total item. total + f item) a xs = a + sum_list (map f xs)" for a :: real
  by (induction xs arbitrary: a) (simp_all add: add.assoc)

lemma weightedLoop_sums:
  "weightedLoop xs i (a, b) =
     (a + (\<Sum>k<length xs. ma_amount (xs ! k) * real (i + k + 1)),
      b + (\<Sum>k<length xs. real (i + k + 1)))"
proof (induction xs arbitrary: i a b)
  case Nil
  then show ?case by simp
next
  case (Cons x xs)
  show ?case
    by (simp add: Cons.IH Let_def sum.lessThan_Suc_shift add.assoc del: sum.lessThan_Suc)
qed

lemma wmaStdDev_nonneg: "0 \<le> wmaStdDev ms"
proof -
  have "0 \<le> (\<Sum>item\<leftarrow>wmaSorted ms. (ma_amount item - wmaWeightedAverage ms)\<^sup>2)"
    by (rule sum_list_nonneg) auto
  then show ?thesis
    by (simp add: wmaStdDev_def)
qed

lemma weight_sum: "(\<Sum>i<n. real (i + 1)) = real n * (real n + 1) / 2"
  by (induction n) (simp_all add: field_simps)

text \<open>
  Claim C6 as stated fails in its worked example: for the monthly totals 100, 120, 110, 130
  the weighted sum is \<open>100 + 240 + 330 + 520 = 1190\<close>, not 1210, and the prediction is 119.
\<close>

theorem weighted_average_example_counterexample:
  "p_amount (calculateWeightedMovingAverage food4) = 119
   \<and> p_amount (calculateWeightedMovingAverage food4) \<noteq> 121"
  by (simp add: calculateWeightedMovingAverage_def food4_def Let_def)

text \<open>
  Claim C6 as amended. With fewer than 3 months the result is the simple average of the
  amounts (0 for the empty list) with confidence exactly 0.3. Otherwise, with the aggregates
  sorted ascending by month and the weights \<open>1..n\<close> (which sum to \<open>n (n + 1) / 2\<close>), the amount
  is the weighted average and the confidence is
  \<open>(1 - min (stdDev / weightedAverage) 1) * min (n / 12) 1\<close>, the division being JavaScript's:
  when the weighted average is 0 the confidence is NaN for a zero deviation and 0 otherwise.
  For the monthly totals 100, 120, 110, 130 the prediction is \<open>1190 / 10 = 119\<close>.
\<close>

theorem weighted_moving_average_spec:
  "calculateWeightedMovingAverage ms =
     (if length ms < 3 then
        \<lparr>p_amount = (if ms = [] then 0 else sum_list (map ma_amount ms) / real (length ms)),
         p_confidence = Fin 0.3\<rparr>
      else \<lparr>p_amount = wmaWeightedAverage ms, p_confidence = wmaConfidence ms\<rparr>)
   \<and> wmaConfidence ms =
       (if wmaWeightedAverage ms \<noteq> 0 then
          Fin ((1 - min (wmaStdDev ms / wmaWeightedAverage ms) 1) * min (real (length ms) / 12) 1)
        else if wmaStdDev ms = 0 then NaN else Fin 0)
   \<and> (\<Sum>i<length ms. real (i + 1)) = real (length ms) * (real (length ms) + 1) / 2
   \<and> p_amount (calculateWeightedMovingAverage food4) = 1190 / 10
   \<and> p_amount (calculateWeightedMovingAverage food4) = 119"
proof (intro conjI)
  show "calculateWeightedMovingAverage ms =
     (if length ms < 3 then
        \<lparr>p_amount = (if ms = [] then 0 else sum_list (map ma_amount ms) / real (length ms)),
         p_confidence = Fin 0.3\<rparr>
      else \<lparr>p_amount = wmaWeightedAverage ms, p_confidence = wmaConfidence ms\<rparr>)"
    by (simp add: calculateWeightedMovingAverage_def Let_def foldl_add_sum_list weightedLoop_sums
          wmaWeightedAverage_def wmaStdDev_def wmaConfidence_def wmaSorted_def)
  show "wmaConfidence ms =
       (if wmaWeightedAverage ms \<noteq> 0 then
          Fin ((1 - min (wmaStdDev ms / wmaWeightedAverage ms) 1) * min (real (length ms) / 12) 1)
        else if wmaStdDev ms = 0 then NaN else Fin 0)"
    using wmaStdDev_nonneg [of ms]
    by (auto simp: wmaConfidence_def jdiv_def)
  show "(\<Sum>i<length ms. real (i + 1)) = real (length ms) * (real (length ms) + 1) / 2"
    by (rule weight_sum)
  show "p_amount (calculateWeightedMovingAverage food4) = 1190 / 10"
    and "p_amount (calculateWeightedMovingAverage food4) = 119"
    by (simp_all add: calculateWeightedMovingAverage_def food4_def Let_def)
qed

subsection \<open>The monthly series of a category\<close>

text \<open>
  Claim C7, evaluated on the last day of March 2025 at noon, for a user without transactions.
  With \<open>months = 2\<close> the window starts on 31 January; the loop of
  \<^verbatim>\<open>fillMissingMonths\<close> steps from 31 January to 3 March, because February has no 31st
  day, so the series has January and March and no February. With the default \<open>months = 12\<close>
  the window starts on 31 March 2024 and the first step goes to 1 May, so April 2024 is
  missing.
\<close>

theorem getCategoryTrend_skips_month:
  "getCategoryTrend 1 7 2 mar31 []
     = [\<lparr>ma_month = ''2025-01'', ma_amount = 0\<rparr>, \<lparr>ma_month = ''2025-03'', ma_amount = 0\<rparr>]
   \<and> map ma_month (getCategoryTrend 1 7 12 mar31 [])
     = [''2024-03'', ''2024-05'', ''2024-06'', ''2024-07'', ''2024-08'', ''2024-09'', ''2024-10'',
        ''2024-11'', ''2024-12'', ''2025-01'', ''2025-02'', ''2025-03'']"
  by (simp add: getCategoryTrend_def findByPeriod_def aggregateByMonth_def fillMissingMonths_def
        setMonth_def mar31_def Let_def daysInMonth_def isLeapYear_def dateLe_def monthNo_def
        monthKey_def padStart2_def)

subsection \<open>Category groups and their statistics\<close>

lemma foldl_push_filter:
  "foldl (\<lambda>acc t. if P t then acc @ [f t] else acc) acc xs = acc @ map f (filter P xs)"
  by (induction xs arbitrary: acc) simp_all

lemma foldl_append_concat:
  "foldl (\<lambda>acc g. acc @ h g) acc gs = acc @ concat (map h gs)"
  by (induction gs arbitrary: acc) simp_all

lemma categoryAnomalies_eq:
  "categoryAnomalies g acc =
     acc @ (if length (snd g) < 3 then []
            else map (zAnomaly (fst g) (calculateCategoryStats (snd g)))
                   (filter (\<lambda>t. jgt (zScore t (calculateCategoryStats (snd g))) 2) (snd g)))"
  by (simp add: categoryAnomalies_def Let_def foldl_push_filter)

lemma zScoreAnomalies_eq:
  "zScoreAnomalies txs =
     concat (map (\<lambda>g. if length (snd g) < 3 then []
            else map (zAnomaly (fst g) (calculateCategoryStats (snd g)))
                   (filter (\<lambda>t. jgt (zScore t (calculateCategoryStats (snd g))) 2) (snd g)))
       (objectEntries (transactionsByCategory txs)))"
proof -
  have "zScoreAnomalies txs =
      foldl (\<lambda>acc g. acc @ (if length (snd g) < 3 then []
            else map (zAnomaly (fst g) (calculateCategoryStats (snd g)))
                   (filter (\<lambda>t. jgt (zScore t (calculateCategoryStats (snd g))) 2) (snd g)))) []
        (objectEntries (transactionsByCategory txs))"
    unfolding zScoreAnomalies_def by (simp only: categoryAnomalies_eq)
  then show ?thesis by (simp only: foldl_append_concat append_Nil)
qed













subsection \<open>Anomalies of a category group\<close>


















text \<open>
  The z-score is the rounded one. For four transactions of 0.01 and one of 0.36 the z-score
  of the last one is 2 when it is computed in the reals; the doubles give a mean of
  0.07999999999999999, a deviation of 0.13999999999999999 and the z-score
  2.0000000000000004, and the transaction is flagged.
\<close>

lemma cents_stats:
  "mean (calculateCategoryStats centsTx) = Fin (2882303761517117 / 2 ^ 55)
   \<and> stdDev (calculateCategoryStats centsTx) = Fin (5044031582654955 / 2 ^ 55)
   \<and> map (\<lambda>t. zScore t (calculateCategoryStats centsTx)) centsTx
       = replicate 4 (Fin (1 / 2)) @ [Fin (4503599627370497 / 2 ^ 51)]"
proof -
  have s1: "fadd (Fin 0) (Fin cent) = Fin cent"
    unfolding fadd.simps
    by (subst roundDouble_exact [where m = "5764607523034235" and e = "- 59"])
       (simp_all add: cent_def pow2_def)
  define v1 where "v1 = (5764607523034235 / 2 ^ 58 :: real)"
  have s2: "fadd (Fin cent) (Fin cent) = Fin v1"
    unfolding fadd.simps
    by (subst roundDouble_exact [where m = "5764607523034235" and e = "- 58"])
       (simp_all add: cent_def v1_def pow2_def)
  define v2 where "v2 = (1080863910568919 / 2 ^ 55 :: real)"
  have s3: "fadd (Fin v1) (Fin cent) = Fin v2"
    unfolding fadd.simps cent_def v1_def v2_def
    by (subst roundDouble_eval [where k = "- 6"])
       (simp_all add: pow2_def roundHalfEven_def Let_def)
  define v3 where "v3 = (5764607523034235 / 2 ^ 57 :: real)"
  have s4: "fadd (Fin v2) (Fin cent) = Fin v3"
    unfolding fadd.simps cent_def v2_def v3_def
    by (subst roundDouble_eval [where k = "- 5"])
       (simp_all add: pow2_def roundHalfEven_def Let_def)
  define v4 where "v4 = (7205759403792793 / 2 ^ 54 :: real)"
  have s5: "fadd (Fin v3) (Fin cents36) = Fin v4"
    unfolding fadd.simps cents36_def v3_def v4_def
    by (subst roundDouble_eval [where k = "- 2"])
       (simp_all add: pow2_def roundHalfEven_def Let_def)
  define v5 where "v5 = (2882303761517117 / 2 ^ 55 :: real)"
  have s6: "fdiv (Fin v4) (Fin 5) = Fin v5"
    unfolding fdiv.simps v4_def v5_def
    by (subst roundDouble_eval [where k = "- 4"])
       (simp_all add: pow2_def roundHalfEven_def Let_def)
  define v6 where "v6 = (- (5044031582654955 / 2 ^ 56) :: real)"
  have s7: "fsub (Fin cent) (Fin v5) = Fin v6"
    unfolding fsub_def fneg.simps fadd.simps cent_def v5_def v6_def
    by (subst roundDouble_eval [where k = "- 4"])
       (simp_all add: pow2_def roundHalfEven_def Let_def)
  define v7 where "v7 = (5649315372573549 / 2 ^ 60 :: real)"
  have s8: "mathPow2 (Fin v6) = Fin v7"
    unfolding mathPow2_def fmul.simps v6_def v7_def
    by (subst roundDouble_eval [where k = "- 8"])
       (simp_all add: pow2_def roundHalfEven_def Let_def)
  define v8 where "v8 = (1261007895663739 / 2 ^ 52 :: real)"
  have s9: "fsub (Fin cents36) (Fin v5) = Fin v8"
    unfolding fsub_def fneg.simps fadd.simps cents36_def v5_def v8_def
    by (subst roundDouble_eval [where k = "- 2"])
       (simp_all add: pow2_def roundHalfEven_def Let_def)
  define v9 where "v9 = (5649315372573551 / 2 ^ 56 :: real)"
  have s10: "mathPow2 (Fin v8) = Fin v9"
    unfolding mathPow2_def fmul.simps v8_def v9_def
    by (subst roundDouble_eval [where k = "- 4"])
       (simp_all add: pow2_def roundHalfEven_def Let_def)
  have s11: "fadd (Fin 0) (Fin v7) = Fin v7"
    unfolding fadd.simps
    by (subst roundDouble_exact [where m = "5649315372573549" and e = "- 60"])
       (simp_all add: v7_def pow2_def)
  define v10 where "v10 = (5649315372573549 / 2 ^ 59 :: real)"
  have s12: "fadd (Fin v7) (Fin v7) = Fin v10"
    unfolding fadd.simps
    by (subst roundDouble_exact [where m = "5649315372573549" and e = "- 59"])
       (simp_all add: v10_def v7_def pow2_def)
  define v11 where "v11 = (2118493264715081 / 2 ^ 57 :: real)"
  have s13: "fadd (Fin v10) (Fin v7) = Fin v11"
    unfolding fadd.simps v10_def v11_def v7_def
    by (subst roundDouble_eval [where k = "- 7"])
       (simp_all add: pow2_def roundHalfEven_def Let_def)
  define v12 where "v12 = (5649315372573549 / 2 ^ 58 :: real)"
  have s14: "fadd (Fin v11) (Fin v7) = Fin v12"
    unfolding fadd.simps v11_def v12_def v7_def
    by (subst roundDouble_eval [where k = "- 6"])
       (simp_all add: pow2_def roundHalfEven_def Let_def)
  define v13 where "v13 = (3530822107858469 / 2 ^ 55 :: real)"
  have s15: "fadd (Fin v12) (Fin v9) = Fin v13"
    unfolding fadd.simps v12_def v13_def v9_def
    by (subst roundDouble_eval [where k = "- 4"])
       (simp_all add: pow2_def roundHalfEven_def Let_def)
  define v14 where "v14 = (2824657686286775 / 2 ^ 57 :: real)"
  have s16: "fdiv (Fin v13) (Fin 5) = Fin v14"
    unfolding fdiv.simps v13_def v14_def
    by (subst roundDouble_eval [where k = "- 6"])
       (simp_all add: pow2_def roundHalfEven_def Let_def)
  define v15 where "v15 = (5044031582654955 / 2 ^ 55 :: real)"
  have s17: "fsqrt (Fin v14) = Fin v15"
    using roundDouble_sqrt [where k = "- 3" and m = 5044031582654955 and v = v14]
    by (simp add: pow2_def power2_eq_square v14_def v15_def)
  define v16 where "v16 = (- (1 / 2) :: real)"
  have s18: "fdiv (Fin v6) (Fin v15) = Fin v16"
    unfolding fdiv.simps
    by (subst roundDouble_exact [where m = "- 1" and e = "- 1"])
       (simp_all add: v15_def v16_def v6_def pow2_def)
  define v17 where "v17 = (4503599627370497 / 2 ^ 51 :: real)"
  have s19: "fdiv (Fin v8) (Fin v15) = Fin v17"
    unfolding fdiv.simps v15_def v17_def v8_def
    by (subst roundDouble_eval [where k = "1"])
       (simp_all add: pow2_def roundHalfEven_def Let_def)
  define v18 where "v18 = (1 / 2 :: real)"
  have st: "mean (calculateCategoryStats centsTx) = Fin v5
            \<and> stdDev (calculateCategoryStats centsTx) = Fin v15"
    by (simp add: calculateCategoryStats_def Let_def centsTx_def mkTx_def
          s1 s2 s3 s4 s5 s6 s7 s8 s9 s10 s11 s12 s13 s14 s15 s16 s17 s18 s19
        del: fadd.simps fmul.simps fdiv.simps fsqrt.simps)
  have "map (\<lambda>t. zScore t (calculateCategoryStats centsTx)) centsTx
          = map (\<lambda>t. jabs (fdiv (fsub (Fin (amount t)) (Fin v5)) (Fin v15))) centsTx"
    by (simp add: zScore_def st)
  also have "\<dots> = replicate 4 (Fin (1 / 2)) @ [Fin (4503599627370497 / 2 ^ 51)]"
    by (simp add: centsTx_def mkTx_def numeral_eq_Suc s1 s2 s3 s4 s5 s6 s7 s8 s9 s10 s11 s12 s13 s14 s15 s16 s17 s18 s19
        del: fadd.simps fmul.simps fdiv.simps fsqrt.simps;
        simp add: v10_def v11_def v12_def v13_def v14_def v15_def v16_def v17_def v18_def v1_def v2_def v3_def v4_def v5_def v6_def v7_def v8_def v9_def)
  finally have zs: "map (\<lambda>t. zScore t (calculateCategoryStats centsTx)) centsTx
          = replicate 4 (Fin (1 / 2)) @ [Fin (4503599627370497 / 2 ^ 51)]" .
  from st zs show ?thesis
    by (simp add: v10_def v11_def v12_def v13_def v14_def v15_def v16_def v17_def v18_def v1_def v2_def v3_def v4_def v5_def v6_def v7_def v8_def v9_def)
qed

lemma cents_flagged:
  "map transactionId (zScoreAnomalies centsTx) = [5]"
proof -
  define S where "S = calculateCategoryStats centsTx"
  have "map (\<lambda>t. jgt (zScore t S) 2) centsTx = map (\<lambda>z. jgt z 2) (map (\<lambda>t. zScore t S) centsTx)"
    by (simp add: comp_def)
  also have "\<dots> = replicate 4 False @ [True]"
    unfolding S_def using cents_stats by (simp add: numeral_eq_Suc)
  finally have "filter (\<lambda>t. jgt (zScore t S) 2) centsTx = [mkTx 5 cents36 (Some 3)]"
    by (simp add: centsTx_def numeral_eq_Suc)
  moreover have "objectEntries (transactionsByCategory centsTx) = [(3, centsTx)]"
    by (simp add: objectEntries_def transactionsByCategory_def centsTx_def mkTx_def truthy_def)
  moreover have "\<not> length centsTx < 3" by (simp add: centsTx_def)
  ultimately show ?thesis
    by (simp add: zScoreAnomalies_eq S_def zAnomaly_def mkTx_def)
qed

subsection \<open>Groups of equal amounts\<close>










subsection \<open>The recurrence rule\<close>


lemma jlt_jdiv_sqrt: "jlt (jdiv (sqrt v) a) c \<longleftrightarrow> a \<noteq> 0 \<and> sqrt v / a < c" if "0 \<le> v"
  using that by (auto simp: jdiv_def)










subsection \<open>Missing recurrences of a monthly bill\<close>

lemma normalize_accents:
  "normalizeText (''Caf'' @ [CHR 0xE9] @ '' A'' @ [CHR 0xE7] @ ''a'' @ [CHR 0xED]) = ''cafe acai''"
  by (simp add: normalizeText_def toLowerCase_def toLowerChar_def baseLetter_def
        isWordChar_def isSpaceChar_def)









subsection \<open>The chain of suggestions\<close>

lemma fallback_typeOnly: "fallbackCategorization amt uid cats = typeOnlySuggestion amt uid cats"
  by (simp add: fallbackCategorization_def typeOnlySuggestion_def Let_def split: list.splits)

lemma similarLoop_find:
  "similarLoop q ts =
     (case List.find (\<lambda>t. description t = None \<or> isSimilarTo q t) ts of
        None \<Rightarrow> Inr None
      | Some t \<Rightarrow> if description t = None then Inl TypeError else Inr (Some t))"
  by (induction ts) (auto simp: isSimilarTo_def Let_def split: option.splits)

lemma keywordLoop_find:
  "keywordLoop km q cs =
     (case List.find (\<lambda>c. inheritedName km c \<or> keywordHit km q c) cs of
        None \<Rightarrow> Inr None
      | Some c \<Rightarrow>
          if inheritedName km c then Inl TypeError
          else Inr (Some \<lparr>s_categoryId = Some (cat_id c), s_confidence = 0.7\<rparr>))"
  by (induction cs)
     (auto simp: keywordHit_def inheritedName_def keywordMapGet_def split: option.splits)

lemma suggestCategory_chain:
  "suggestCategory cl keywordMap rows cats desc amt uid
     = suggestChain cl keywordMap rows cats desc amt uid"
  by (simp add: suggestCategory_def suggestChain_def tryChain_def findSimilarTransaction_def
        matchCategoryByKeywords_def similarLoop_find keywordLoop_find fallback_typeOnly Let_def
      split: option.splits sum.splits)

subsection \<open>A recent transaction without description\<close>

lemma recent_ex: "findRecent 7 100 [uberTx, noDescTx] = [noDescTx, uberTx]"
proof -
  have t: "getTime (date uberTx) = 1707004800000" "getTime (date noDescTx) = 1709596800000"
    by (simp_all add: uberTx_def noDescTx_def feb4_def mar5_def getTime_def daysFromCivil_def Let_def)
  have u: "userId uberTx = 7" "userId noDescTx = 7"
    by (simp_all add: uberTx_def noDescTx_def)
  show ?thesis by (simp add: findRecent_def t u)
qed

lemma normalize_uber:
  "normalizeText ''Uber trip'' = ''uber trip''" "normalizeText ''Uber'' = ''uber''"
  by (simp_all add: normalizeText_def toLowerCase_def toLowerChar_def baseLetter_def
        isWordChar_def isSpaceChar_def)

text \<open>
  Claim C5, evaluated. The model is not trained. The two recent transactions of user 7 are,
  newest first, one without description and one described \<open>Uber\<close> in category 5. For the
  description \<open>Uber trip\<close> the second one is similar, but the scan throws on the first one;
  the error is caught and the result is the type-only suggestion, category 9 with confidence
  0.3, not category 5 with confidence 0.85.
\<close>

theorem suggest_missing_description_falls_back:
  "suggestCategory untrained Map.empty [uberTx, noDescTx] [miscCategory] (Some ''Uber trip'') (- 20) 7
     = Some \<lparr>s_categoryId = Some 9, s_confidence = 0.3\<rparr>
   \<and> findRecent 7 100 [uberTx, noDescTx] = [noDescTx, uberTx]
   \<and> description uberTx = Some ''Uber''
   \<and> includes_str (normalizeText ''Uber trip'') (normalizeText ''Uber'')
   \<and> categoryId uberTx = Some 5"
proof -
  have b: "\<not> isBlank (Some ''Uber trip'')"
    by (simp add: isBlank_def trim_def isSpaceChar_def)
  have f: "fallbackCategorization (- 20) 7 [miscCategory] = Some \<lparr>s_categoryId = Some 9, s_confidence = 0.3\<rparr>"
    by (simp add: fallbackCategorization_def cat_findAll_def polarity_def miscCategory_def)
  have s: "includes_str ''uber trip'' ''uber''"
    by (simp add: includes_str_def sublist_code)
  have d: "description noDescTx = None" "description uberTx = Some ''Uber''" "categoryId uberTx = Some 5"
    by (simp_all add: noDescTx_def uberTx_def)
  have "tryChain untrained Map.empty [uberTx, noDescTx] [miscCategory] ''Uber trip'' (- 20) 7 = Inl TypeError"
    by (simp add: tryChain_def untrained_def findSimilarTransaction_def recent_ex d)
  then show ?thesis
    by (simp add: suggestCategory_def b f recent_ex normalize_uber s d)
qed

text \<open>
  A category whose lower-case name is \<^verbatim>\<open>constructor\<close> ends the scan of the categories
  with a type error, which the \<^verbatim>\<open>catch\<close> turns into the type-only suggestion: the
  keyword \<open>uber\<close> of the next category is not reached.
\<close>

lemma keyword_scan_inherited_name:
  "suggestCategory untrained transportKeywords [] [transportCategory, constructorCategory]
     (Some ''Uber trip'') (- 20) 7
     = Some \<lparr>s_categoryId = Some 8, s_confidence = 0.3\<rparr>
   \<and> suggestCategory untrained transportKeywords [] [transportCategory]
       (Some ''Uber trip'') (- 20) 7
     = Some \<lparr>s_categoryId = Some 6, s_confidence = 0.7\<rparr>"
proof -
  have b: "\<not> isBlank (Some ''Uber trip'')"
    by (simp add: isBlank_def trim_def isSpaceChar_def)
  have c: "cat_findAll 7 (Some (polarity (- 20))) [transportCategory, constructorCategory]
             = [constructorCategory, transportCategory]"
    "cat_findAll 7 (Some (polarity (- 20))) [transportCategory] = [transportCategory]"
    by (simp_all add: cat_findAll_def polarity_def transportCategory_def constructorCategory_def)
  have n: "toLowerCase (cat_name constructorCategory) = ''constructor''"
    "toLowerCase (cat_name transportCategory) = ''transporte''"
    by (simp_all add: toLowerCase_def toLowerChar_def constructorCategory_def transportCategory_def)
  have k: "keywordMapGet transportKeywords ''constructor'' = Inherited"
    "keywordMapGet transportKeywords ''transporte'' = Keywords [''uber'', ''taxi'', ''99'', ''cabify'']"
    by (simp_all add: keywordMapGet_def transportKeywords_def)
  have s: "includes_str ''uber trip'' ''uber''"
    by (simp add: includes_str_def sublist_code)
  have r: "findRecent 7 100 [] = []" by (simp add: findRecent_def)
  have i: "cat_id constructorCategory = 8" "cat_id transportCategory = 6"
    by (simp_all add: constructorCategory_def transportCategory_def)
  show ?thesis
    by (simp add: suggestCategory_def b tryChain_def untrained_def findSimilarTransaction_def r
          matchCategoryByKeywords_def c n k normalize_uber s fallbackCategorization_def i)
qed

end
